theory Spec2Isabelle
  imports Complex_Main
begin

section \<open>Python text primitives used by task1\_2.py\<close>

text \<open>
  A Python \<open>str\<close> is modelled as a \<open>string\<close>; a \<open>char\<close> stands for a code point
  below 256. The character classes are those of Python on that range.
\<close>

definition isspace :: "char \<Rightarrow> bool" where
  \<comment> \<open>\<open>str.isspace\<close>: the characters \<open>split()\<close> and \<open>strip()\<close> treat as blank.\<close>
  "isspace c = ((of_char c :: nat) \<in> {9, 10, 11, 12, 13, 28, 29, 30, 31, 32, 133, 160})"

definition isdigit :: "char \<Rightarrow> bool" where
  \<comment> \<open>The regular expression class \<open>\\d\<close>.\<close>
  "isdigit c = (48 \<le> (of_char c :: nat) \<and> (of_char c :: nat) \<le> 57)"

definition islinebreak :: "char \<Rightarrow> bool" where
  \<comment> \<open>The one-character line boundaries of \<open>str.splitlines\<close>.\<close>
  "islinebreak c = ((of_char c :: nat) \<in> {10, 11, 12, 13, 28, 29, 30, 133})"

definition lower_char :: "char \<Rightarrow> char" where
  "lower_char c =
     (let n = (of_char c :: nat)
      in if (65 \<le> n \<and> n \<le> 90) \<or> (192 \<le> n \<and> n \<le> 214) \<or> (216 \<le> n \<and> n \<le> 222)
         then char_of (n + 32) else c)"

definition lower :: "string \<Rightarrow> string" where
  \<comment> \<open>\<open>str.lower\<close>.\<close>
  "lower s = map lower_char s"

definition strip :: "string \<Rightarrow> string" where
  \<comment> \<open>\<open>str.strip()\<close> with no argument.\<close>
  "strip s = rev (dropWhile isspace (rev (dropWhile isspace s)))"

fun split_acc :: "string \<Rightarrow> string \<Rightarrow> string list" where
  "split_acc acc [] = (if acc = [] then [] else [rev acc])"
| "split_acc acc (c # cs) =
     (if isspace c then (if acc = [] then split_acc [] cs else rev acc # split_acc [] cs)
      else split_acc (c # acc) cs)"

definition py_split :: "string \<Rightarrow> string list" where
  \<comment> \<open>\<open>str.split()\<close> with no argument: the maximal runs of non-blank characters.\<close>
  "py_split s = split_acc [] s"

fun splitlines_acc :: "string \<Rightarrow> string \<Rightarrow> string list" where
  "splitlines_acc acc [] = (if acc = [] then [] else [rev acc])"
| "splitlines_acc acc (c # cs) =
     (if c = CHR 0x0D \<and> cs \<noteq> [] \<and> hd cs = CHR 0x0A then rev acc # splitlines_acc [] (tl cs)
      else if islinebreak c then rev acc # splitlines_acc [] cs
      else splitlines_acc (c # acc) cs)"

definition splitlines :: "string \<Rightarrow> string list" where
  \<comment> \<open>\<open>str.splitlines()\<close>: the line boundaries are dropped.\<close>
  "splitlines s = splitlines_acc [] s"

fun readlines_acc :: "string \<Rightarrow> string \<Rightarrow> string list" where
  "readlines_acc acc [] = (if acc = [] then [] else [rev acc])"
| "readlines_acc acc (c # cs) =
     (if c = CHR 0x0A then rev (c # acc) # readlines_acc [] cs
      else readlines_acc (c # acc) cs)"

definition readlines :: "string \<Rightarrow> string list" where
  \<comment> \<open>\<open>f.readlines()\<close> on the text as text mode delivers it (every line end is a
      newline character): each line keeps its newline.\<close>
  "readlines s = readlines_acc [] s"

fun startswith :: "string \<Rightarrow> string \<Rightarrow> bool" where
  "startswith [] s = True"
| "startswith (p # ps) [] = False"
| "startswith (p # ps) (c # cs) = (p = c \<and> startswith ps cs)"

fun contains :: "string \<Rightarrow> string \<Rightarrow> bool" where
  \<comment> \<open>\<open>sub in s\<close>.\<close>
  "contains sub [] = (sub = [])"
| "contains sub (c # cs) = (startswith sub (c # cs) \<or> contains sub cs)"

definition digits_val :: "string \<Rightarrow> nat" where
  "digits_val ds = foldl (\<lambda>n c. 10 * n + (of_char c - 48)) 0 ds"

definition int_max_str_digits :: nat where
  \<comment> \<open>The interpreter's default limit on the digits of a decimal string given to \<open>int\<close>.\<close>
  "int_max_str_digits = 4300"

definition py_int :: "string \<Rightarrow> int option" where
  \<comment> \<open>\<open>int(s)\<close> on a run of decimal digits; \<open>None\<close> when it raises \<open>ValueError\<close>
      because the run is longer than the limit.\<close>
  "py_int ds = (if length ds > int_max_str_digits then None else Some (int (digits_val ds)))"

section \<open>The metric registry\<close>

text \<open>
  The six module-level gauges and the dictionary \<open>meminfo_gauges\<close>. A labelled gauge is a
  map from the label value to the float its child holds; a label that was never used has
  no child. \<open>labels\<close> creates the child of a new label with the value 0.0 and returns
  the child of a known label as it is. A gauge of \<open>meminfo_gauges\<close> has no label: it
  carries the help text it was created with and a float, 0.0 when it is created.
  \<open>Gauge.set(x)\<close> stores \<open>float(x)\<close>.

  The type \<open>'f\<close> of Python's floats and the operations on it are parameters of the
  model, so every theorem holds for Python's own floats:
  \<^item> \<open>fl\<close> is \<open>float(s)\<close> on a string, \<open>None\<close> when it raises \<open>ValueError\<close>;
  \<^item> \<open>fi\<close> is \<open>float(n)\<close> on an integer, \<open>None\<close> when it raises \<open>OverflowError\<close>;
  \<^item> \<open>k\<close> is the product \<open>x * 1024\<close> of a float;
  \<^item> \<open>z\<close> is the float 0.0.

  Logging does not touch the registry and is left out.
\<close>

record 'f gauge =
  documentation :: string
  sample :: 'f

record 'f registry =
  io_read_rate :: "string \<rightharpoonup> 'f"
  io_write_rate :: "string \<rightharpoonup> 'f"
  io_tps :: "string \<rightharpoonup> 'f"
  io_read_bytes :: "string \<rightharpoonup> 'f"
  io_write_bytes :: "string \<rightharpoonup> 'f"
  cpu_avg_percent :: "string \<rightharpoonup> 'f"
  meminfo_gauges :: "string \<rightharpoonup> 'f gauge"

datatype error = CalledProcessError | OSError | ValueError | OverflowError

definition labels :: "(string \<rightharpoonup> 'f) \<Rightarrow> 'f \<Rightarrow> string \<Rightarrow> (string \<rightharpoonup> 'f)" where
  \<comment> \<open>\<open>gauge.labels(l)\<close>: the child of a new label starts at 0.0.\<close>
  "labels g z l = (case g l of None \<Rightarrow> g(l \<mapsto> z) | Some v \<Rightarrow> g)"

text \<open>
  The body of a \<open>try\<close> block either completes with a registry (\<open>Inr\<close>) or raises
  (\<open>Inl\<close>); an exception leaves the registry as it was when it was raised.
\<close>

type_synonym 'f outcome = "(error \<times> 'f registry) + 'f registry"

definition and_then :: "'f outcome \<Rightarrow> ('f registry \<Rightarrow> 'f outcome) \<Rightarrow> 'f outcome" where
  "and_then x f = (case x of Inl e \<Rightarrow> Inl e | Inr r \<Rightarrow> f r)"

fun registry_of :: "'f outcome \<Rightarrow> 'f registry" where
  "registry_of (Inl (e, r)) = r"
| "registry_of (Inr r) = r"

section \<open>collect\_iostat\_metrics\<close>

definition set_cpu ::
  "(string \<Rightarrow> 'f option) \<Rightarrow> 'f \<Rightarrow> string \<Rightarrow> string \<Rightarrow> 'f registry \<Rightarrow> 'f outcome" where
  \<comment> \<open>\<open>cpu_avg_percent.labels(mode).set(float(field))\<close>: the child is looked up (and
      created) before the argument is evaluated.\<close>
  "set_cpu fl z mode field r =
     (let child = r\<lparr>cpu_avg_percent := labels (cpu_avg_percent r) z mode\<rparr> in
      case fl field of
        None \<Rightarrow> Inl (ValueError, child)
      | Some v \<Rightarrow> Inr (child\<lparr>cpu_avg_percent := (cpu_avg_percent child)(mode \<mapsto> v)\<rparr>))"

definition update_cpu ::
  "(string \<Rightarrow> 'f option) \<Rightarrow> 'f \<Rightarrow> string list \<Rightarrow> 'f registry \<Rightarrow> 'f outcome" where
  \<comment> \<open>Lines 51 to 59: the six \<open>set\<close> calls run in order and stop at the first that raises.\<close>
  "update_cpu fl z cpu_vals r =
     (if length cpu_vals \<ge> 6 then
        and_then (and_then (and_then (and_then (and_then
          (set_cpu fl z ''user'' (cpu_vals ! 0) r)
          (set_cpu fl z ''nice'' (cpu_vals ! 1)))
          (set_cpu fl z ''system'' (cpu_vals ! 2)))
          (set_cpu fl z ''iowait'' (cpu_vals ! 3)))
          (set_cpu fl z ''steal'' (cpu_vals ! 4)))
          (set_cpu fl z ''idle'' (cpu_vals ! 5))
      else Inr r)"

fun cpu_loop ::
  "(string \<Rightarrow> 'f option) \<Rightarrow> 'f \<Rightarrow> string list \<Rightarrow> 'f registry \<Rightarrow> 'f outcome" where
  \<comment> \<open>Lines 47 to 60: the first line with \<open>%user\<close> that has a successor ends the loop.\<close>
  "cpu_loop fl z [] r = Inr r"
| "cpu_loop fl z [line] r = Inr r"
| "cpu_loop fl z (line # nxt # rest) r =
     (if contains ''%user'' line then update_cpu fl z (py_split nxt) r
      else cpu_loop fl z (nxt # rest) r)"

definition device_line ::
  "(string \<Rightarrow> 'f option) \<Rightarrow> ('f \<Rightarrow> 'f) \<Rightarrow> string \<Rightarrow> 'f registry \<Rightarrow> 'f outcome" where
  \<comment> \<open>Lines 72 to 85: the three conversions come before the five \<open>set\<close> calls, each of
      which stores a float in the child it has just looked up.\<close>
  "device_line fl k line r =
     (let parts = py_split line in
      if length parts \<ge> 4 then
        (let device = parts ! 0 in
         case fl (parts ! 1) of None \<Rightarrow> Inl (ValueError, r) | Some tps \<Rightarrow>
         (case fl (parts ! 2) of None \<Rightarrow> Inl (ValueError, r) | Some kb_read_sec \<Rightarrow>
         (case fl (parts ! 3) of None \<Rightarrow> Inl (ValueError, r) | Some kb_write_sec \<Rightarrow>
            Inr (r\<lparr>io_tps := (io_tps r)(device \<mapsto> tps),
                   io_read_rate := (io_read_rate r)(device \<mapsto> kb_read_sec),
                   io_write_rate := (io_write_rate r)(device \<mapsto> kb_write_sec),
                   io_read_bytes := (io_read_bytes r)(device \<mapsto> k kb_read_sec),
                   io_write_bytes := (io_write_bytes r)(device \<mapsto> k kb_write_sec)\<rparr>))))
      else Inr r)"

fun device_loop ::
  "(string \<Rightarrow> 'f option) \<Rightarrow> ('f \<Rightarrow> 'f) \<Rightarrow> bool \<Rightarrow> string list \<Rightarrow> 'f registry \<Rightarrow> 'f outcome" where
  \<comment> \<open>Lines 63 to 87, with the flag \<open>device_section\<close> as an argument.\<close>
  "device_loop fl k device_section [] r = Inr r"
| "device_loop fl k device_section (line # rest) r =
     (if contains ''Device'' line then device_loop fl k True rest r
      else if device_section \<and> strip line \<noteq> [] then
        and_then (device_line fl k line r) (device_loop fl k device_section rest)
      else device_loop fl k device_section rest r)"

definition iostat_body ::
  "(string \<Rightarrow> 'f option) \<Rightarrow> ('f \<Rightarrow> 'f) \<Rightarrow> 'f \<Rightarrow> string \<Rightarrow> 'f registry \<Rightarrow> 'f outcome" where
  \<comment> \<open>Lines 39 to 87: what the \<open>try\<close> block does with the captured output.\<close>
  "iostat_body fl k z iostat_output r =
     (let lines = splitlines iostat_output in
      and_then (cpu_loop fl z lines r) (device_loop fl k False lines))"

definition collect_iostat_metrics ::
  "(string \<Rightarrow> 'f option) \<Rightarrow> ('f \<Rightarrow> 'f) \<Rightarrow> 'f \<Rightarrow> error + string \<Rightarrow> 'f registry \<Rightarrow>
     bool \<times> 'f registry" where
  \<comment> \<open>\<open>run\<close> is what \<open>subprocess.run\<close> did: it raised (\<open>Inl\<close>) or gave the output text.
      The \<open>except\<close> clause turns every exception of the body into \<open>False\<close>.\<close>
  "collect_iostat_metrics fl k z run r =
     (case run of
        Inl e \<Rightarrow> (False, r)
      | Inr iostat_output \<Rightarrow>
          (case iostat_body fl k z iostat_output r of
             Inl (e, r') \<Rightarrow> (False, r')
           | Inr r' \<Rightarrow> (True, r')))"

section \<open>collect\_meminfo\_metrics\<close>

definition first_digits :: "string \<Rightarrow> string option" where
  \<comment> \<open>\<open>re.search(r'(\\d+)', s)\<close>: the leftmost maximal run of digits.\<close>
  "first_digits s =
     (let run = takeWhile isdigit (dropWhile (\<lambda>c. \<not> isdigit c) s)
      in if run = [] then None else Some run)"

definition sanitize_char :: "char \<Rightarrow> char" where
  \<comment> \<open>One character under \<open>re.sub(r'[^a-zA-Z0-9_]', '_', ...)\<close>.\<close>
  "sanitize_char c =
     (let n = (of_char c :: nat)
      in if (97 \<le> n \<and> n \<le> 122) \<or> (65 \<le> n \<and> n \<le> 90) \<or> (48 \<le> n \<and> n \<le> 57) \<or> n = 95
         then c else CHR ''_'')"

definition sanitized_key :: "string \<Rightarrow> string" where
  "sanitized_key key = map sanitize_char (lower key)"

definition metric_name :: "string \<Rightarrow> string" where
  "metric_name key = ''meminfo_'' @ sanitized_key key @ ''_bytes''"

definition meminfo_entry :: "string \<Rightarrow> (string \<times> string) option" where
  \<comment> \<open>Lines 125 to 132: the key and the first run of digits, for a line that has both.\<close>
  "meminfo_entry line =
     (if CHR '':'' \<in> set line then
        (let key = strip (takeWhile (\<lambda>c. c \<noteq> CHR '':'') line);
             value_str = tl (dropWhile (\<lambda>c. c \<noteq> CHR '':'') line)
         in case first_digits (strip value_str) of
              None \<Rightarrow> None
            | Some run \<Rightarrow> Some (key, run))
      else None)"

definition set_meminfo_gauge ::
  "(int \<Rightarrow> 'f option) \<Rightarrow> 'f \<Rightarrow> string \<Rightarrow> string \<Rightarrow> 'f registry \<Rightarrow> 'f outcome" where
  \<comment> \<open>Lines 135 to 154: \<open>int\<close> of the run, the value in bytes, the name, the gauge created
      when the name is new, and \<open>set\<close>, which converts the integer to a float.\<close>
  "set_meminfo_gauge fi z key run r =
     (case py_int run of
        None \<Rightarrow> Inl (ValueError, r)
      | Some value_kb \<Rightarrow>
          (let value_bytes = value_kb * 1024;
               name = metric_name key;
               g = (case meminfo_gauges r name of
                      None \<Rightarrow> \<lparr>documentation = ''Memory information: '' @ key, sample = z\<rparr>
                    | Some g \<Rightarrow> g);
               created = r\<lparr>meminfo_gauges := (meminfo_gauges r)(name \<mapsto> g)\<rparr>
           in case fi value_bytes of
                None \<Rightarrow> Inl (OverflowError, created)
              | Some v \<Rightarrow>
                  Inr (created\<lparr>meminfo_gauges := (meminfo_gauges created)(name \<mapsto> g\<lparr>sample := v\<rparr>)\<rparr>)))"

definition meminfo_line ::
  "(int \<Rightarrow> 'f option) \<Rightarrow> 'f \<Rightarrow> string \<Rightarrow> 'f registry \<Rightarrow> 'f outcome" where
  \<comment> \<open>The body of the loop over the lines of the file.\<close>
  "meminfo_line fi z line r =
     (case meminfo_entry line of
        None \<Rightarrow> Inr r
      | Some (key, run) \<Rightarrow> set_meminfo_gauge fi z key run r)"

fun meminfo_loop ::
  "(int \<Rightarrow> 'f option) \<Rightarrow> 'f \<Rightarrow> string list \<Rightarrow> 'f registry \<Rightarrow> 'f outcome" where
  "meminfo_loop fi z [] r = Inr r"
| "meminfo_loop fi z (line # rest) r =
     and_then (meminfo_line fi z line r) (meminfo_loop fi z rest)"

definition collect_meminfo_metrics ::
  "(int \<Rightarrow> 'f option) \<Rightarrow> 'f \<Rightarrow> error + string \<Rightarrow> 'f registry \<Rightarrow> bool \<times> 'f registry" where
  \<comment> \<open>\<open>file\<close> is what opening and reading \<open>/proc/meminfo\<close> did: it raised, or gave the text.
      The \<open>except\<close> clause turns every exception of the loop into \<open>False\<close>.\<close>
  "collect_meminfo_metrics fi z file r =
     (case file of
        Inl e \<Rightarrow> (False, r)
      | Inr text \<Rightarrow>
          (case meminfo_loop fi z (readlines text) r of
             Inl (e, r') \<Rightarrow> (False, r')
           | Inr r' \<Rightarrow> (True, r')))"

section \<open>A registry with no sample, and floats on plain decimal text\<close>

definition empty_registry :: "'f registry" where
  "empty_registry =
     \<lparr>io_read_rate = Map.empty, io_write_rate = Map.empty, io_tps = Map.empty,
      io_read_bytes = Map.empty, io_write_bytes = Map.empty, cpu_avg_percent = Map.empty,
      meminfo_gauges = Map.empty\<rparr>"

text \<open>
  To run the model on concrete text, the floats are instantiated by the rational numbers.
  \<open>float_plain\<close> is \<open>float\<close> on plain decimal literals (a sign, digits, a fraction), the
  form in which iostat prints its columns; the value is the number the literal denotes. It
  is used only on such literals and on words that \<open>float\<close> rejects as well.
  \<open>float_of_int\<close> is \<open>float\<close> on an integer: it raises from \<open>2^1024 - 2^970\<close> on, the
  first integer that rounds to \<open>2^1024\<close>; below, the value is the integer itself, which is
  exact up to \<open>2^53\<close>, and it is used only there and where it raises.
\<close>

definition unsigned_plain :: "string \<Rightarrow> rat option" where
  "unsigned_plain s =
     (let ip = takeWhile isdigit s; rest = dropWhile isdigit s in
      if rest = [] then (if ip = [] then None else Some (of_nat (digits_val ip)))
      else if hd rest = CHR ''.'' \<and> list_all isdigit (tl rest) \<and> (ip \<noteq> [] \<or> tl rest \<noteq> [])
        then Some (of_nat (digits_val (ip @ tl rest)) / 10 ^ length (tl rest))
      else None)"

definition float_plain :: "string \<Rightarrow> rat option" where
  "float_plain s =
     (case strip s of
        [] \<Rightarrow> None
      | c # cs \<Rightarrow>
          if c = CHR ''-'' then map_option uminus (unsigned_plain cs)
          else if c = CHR ''+'' then unsigned_plain cs
          else unsigned_plain (c # cs))"

definition float_of_int :: "int \<Rightarrow> rat option" where
  "float_of_int n = (if \<bar>n\<bar> < 2 ^ 1024 - 2 ^ 970 then Some (of_int n) else None)"

definition times_1024 :: "rat \<Rightarrow> rat" where
  "times_1024 x = x * 1024"

definition big_line :: string where
  \<comment> \<open>The line \<open>Big:1000...0\<close> with 309 zeros and its newline: a value of \<open>10^309\<close> kB.\<close>
  "big_line = ''Big:1'' @ replicate 309 (CHR ''0'') @ [CHR 0x0A]"

section \<open>Observations on a registry\<close>

definition io_part ::
  "'f registry \<Rightarrow> (string \<rightharpoonup> 'f) \<times> (string \<rightharpoonup> 'f) \<times> (string \<rightharpoonup> 'f) \<times> (string \<rightharpoonup> 'f) \<times> (string \<rightharpoonup> 'f)" where
  \<comment> \<open>The five per-device gauges together.\<close>
  "io_part r = (io_tps r, io_read_rate r, io_write_rate r, io_read_bytes r, io_write_bytes r)"

definition device_sample ::
  "'f registry \<Rightarrow> string \<Rightarrow> 'f option \<times> 'f option \<times> 'f option \<times> 'f option \<times> 'f option" where
  \<comment> \<open>What the five per-device gauges hold for one device label.\<close>
  "device_sample r device =
     (io_tps r device, io_read_rate r device, io_write_rate r device,
      io_read_bytes r device, io_write_bytes r device)"

definition earlier_registry :: "rat registry" where
  \<comment> \<open>A registry as an earlier cycle may have left it.\<close>
  "earlier_registry =
     empty_registry\<lparr>cpu_avg_percent := [''user'' \<mapsto> 7, ''idle'' \<mapsto> 93],
                    io_tps := [''sda'' \<mapsto> 3],
                    meminfo_gauges := [''meminfo_memfree_bytes'' \<mapsto>
                      \<lparr>documentation = ''Memory information: MemFree'', sample = 2048\<rparr>]\<rparr>"

text \<open>
  The metric name as the specification words it: lowercase the key, then replace every
  character outside \<open>[a-z0-9_]\<close> by an underscore.
\<close>

definition spec_keep :: "char \<Rightarrow> bool" where
  \<comment> \<open>The class \<open>[a-z0-9_]\<close>.\<close>
  "spec_keep c =
     (let n = (of_char c :: nat)
      in (97 \<le> n \<and> n \<le> 122) \<or> (48 \<le> n \<and> n \<le> 57) \<or> n = 95)"

definition spec_metric_name :: "string \<Rightarrow> string" where
  "spec_metric_name key =
     ''meminfo_'' @ map (\<lambda>c. if spec_keep c then c else CHR ''_'') (lower key) @ ''_bytes''"

definition ascii_alnum :: "char \<Rightarrow> bool" where
  \<comment> \<open>The letters \<open>a-z\<close>, \<open>A-Z\<close> and the digits.\<close>
  "ascii_alnum c =
     (let n = (of_char c :: nat)
      in (97 \<le> n \<and> n \<le> 122) \<or> (65 \<le> n \<and> n \<le> 90) \<or> (48 \<le> n \<and> n \<le> 57))"

section \<open>Writes that do not depend on the registry\<close>

text \<open>
  Every write of the two samplers either stores a value that the input alone determines,
  or creates what is missing and keeps what is there. To say so slot by slot, a registry
  is viewed as a map from slots (a gauge with a label, the help text or the float of a
  meminfo gauge) to cells.
\<close>

datatype slot =
  S_read_rate string | S_write_rate string | S_tps string | S_read_bytes string
| S_write_bytes string | S_cpu string | S_doc string | S_sample string

datatype 'f cell = Num 'f | Txt string

definition view :: "'f registry \<Rightarrow> slot \<Rightarrow> 'f cell option" where
  "view r s =
     (case s of
        S_read_rate l \<Rightarrow> map_option Num (io_read_rate r l)
      | S_write_rate l \<Rightarrow> map_option Num (io_write_rate r l)
      | S_tps l \<Rightarrow> map_option Num (io_tps r l)
      | S_read_bytes l \<Rightarrow> map_option Num (io_read_bytes r l)
      | S_write_bytes l \<Rightarrow> map_option Num (io_write_bytes r l)
      | S_cpu l \<Rightarrow> map_option Num (cpu_avg_percent r l)
      | S_doc n \<Rightarrow> map_option (\<lambda>g. Txt (documentation g)) (meminfo_gauges r n)
      | S_sample n \<Rightarrow> map_option (\<lambda>g. Num (sample g)) (meminfo_gauges r n))"

definition keyed :: "('c option \<Rightarrow> 'c option) \<Rightarrow> bool" where
  \<comment> \<open>What a cycle does to one slot: nothing, store a value, or create when missing.\<close>
  "keyed f \<longleftrightarrow>
     f = (\<lambda>x. x) \<or> (\<exists>v. f = (\<lambda>x. Some v)) \<or>
     (\<exists>d. f = (\<lambda>x. case x of None \<Rightarrow> Some d | Some y \<Rightarrow> Some y))"

definition writes :: "('f registry \<Rightarrow> 'f registry) \<Rightarrow> bool" where
  "writes T \<longleftrightarrow> (\<exists>h. (\<forall>s. keyed (h s)) \<and> (\<forall>r s. view (T r) s = h s (view r s)))"

definition uniform :: "('f registry \<Rightarrow> 'f outcome) \<Rightarrow> bool" where
  \<comment> \<open>Whether the step raises, and what it writes, is the same from every registry.\<close>
  "uniform f \<longleftrightarrow>
     (\<exists>T e. writes T \<and>
        (\<forall>r. f r = (case e of None \<Rightarrow> Inr (T r) | Some x \<Rightarrow> Inl (x, T r))))"

section \<open>Sequencing and frame lemmas\<close>

lemma and_then_Inr [simp]: "and_then (Inr r) f = f r"
  by (simp add: and_then_def)

lemma and_then_Inl [simp]: "and_then (Inl e) f = Inl e"
  by (simp add: and_then_def)

lemma and_then_assoc: "and_then (and_then x f) g = and_then x (\<lambda>r. and_then (f r) g)"
  by (cases x) simp_all

lemma registry_of_and_then_frame:
  assumes "P (registry_of x)" and "\<And>r. P r \<Longrightarrow> P (registry_of (f r))"
  shows "P (registry_of (and_then x f))"
  using assms by (cases x) auto

lemma set_cpu_frame:
  "io_part (registry_of (set_cpu fl z m s r)) = io_part r \<and>
   meminfo_gauges (registry_of (set_cpu fl z m s r)) = meminfo_gauges r"
  by (simp add: set_cpu_def io_part_def Let_def split: option.splits)

lemma update_cpu_frame:
  "io_part (registry_of (update_cpu fl z vs r)) = io_part r \<and>
   meminfo_gauges (registry_of (update_cpu fl z vs r)) = meminfo_gauges r"
  unfolding update_cpu_def
  by (auto intro!: registry_of_and_then_frame
        [where P = "\<lambda>x. io_part x = io_part r \<and> meminfo_gauges x = meminfo_gauges r"]
      simp: set_cpu_frame)

lemma cpu_loop_frame:
  "io_part (registry_of (cpu_loop fl z ls r)) = io_part r \<and>
   meminfo_gauges (registry_of (cpu_loop fl z ls r)) = meminfo_gauges r"
  by (induction fl z ls r rule: cpu_loop.induct) (simp_all add: update_cpu_frame)

lemma device_line_frame:
  "cpu_avg_percent (registry_of (device_line fl k l r)) = cpu_avg_percent r \<and>
   meminfo_gauges (registry_of (device_line fl k l r)) = meminfo_gauges r"
  by (simp add: device_line_def Let_def split: option.splits)

lemma device_loop_frame:
  "cpu_avg_percent (registry_of (device_loop fl k ds ls r)) = cpu_avg_percent r \<and>
   meminfo_gauges (registry_of (device_loop fl k ds ls r)) = meminfo_gauges r"
proof (induction ls arbitrary: ds r)
  case Nil
  show ?case by simp
next
  case (Cons l ls)
  show ?case
  proof (cases "device_line fl k l r")
    case (Inl a)
    with device_line_frame [of fl k l r] show ?thesis
      using Cons by (cases a) auto
  next
    case (Inr r')
    with device_line_frame [of fl k l r] show ?thesis
      using Cons by auto
  qed
qed

lemma cpu_loop_no_header:
  "\<forall>l \<in> set ls. \<not> contains ''%user'' l \<Longrightarrow> cpu_loop fl z ls r = Inr r"
  by (induction fl z ls r rule: cpu_loop.induct) simp_all

lemma device_loop_no_header:
  "\<forall>l \<in> set ls. \<not> contains ''Device'' l \<Longrightarrow> device_loop fl k False ls r = Inr r"
  by (induction ls) simp_all

lemma labels_upd [simp]: "(labels g z l)(l \<mapsto> v) = g(l \<mapsto> v)"
  by (simp add: labels_def split: option.splits)

lemma iostat_body_lines:
  "iostat_body fl k z out r =
     and_then (cpu_loop fl z (splitlines out) r) (device_loop fl k False (splitlines out))"
  by (simp add: iostat_body_def Let_def)

lemma snd_collect_iostat:
  "snd (collect_iostat_metrics fl k z (Inr out) r) = registry_of (iostat_body fl k z out r)"
  by (cases "iostat_body fl k z out r") (auto simp: collect_iostat_metrics_def)

section \<open>Failure of the command or of the file read\<close>

text \<open>
  C4. Neither sampler lets an exception out: the \<open>except\<close> clause turns every exception
  of the body into the result \<open>False\<close>, so each returns a boolean and a registry on every
  input. When \<open>subprocess.run\<close> raises, or when opening or reading \<open>/proc/meminfo\<close>
  raises, the sampler returns \<open>False\<close> and the registry is the one it was called with, so
  every value of an earlier cycle is still there. The boolean of the disk sampler is \<open>True\<close>
  exactly when the command gave its output and the body of the \<open>try\<close> block ran to its
  end; the boolean of the memory sampler is \<open>True\<close> exactly when the file was read and
  the loop over its lines ran to its end.
\<close>

theorem C4_failure_returns_False_registry_kept:
  "collect_iostat_metrics fl k z (Inl e) r = (False, r) \<and>
   collect_meminfo_metrics fi z (Inl e) r = (False, r) \<and>
   fst (collect_iostat_metrics fl k z run r) =
     (\<exists>out r'. run = Inr out \<and> iostat_body fl k z out r = Inr r') \<and>
   fst (collect_meminfo_metrics fi z file r) =
     (\<exists>text r'. file = Inr text \<and> meminfo_loop fi z (readlines text) r = Inr r')"
  by (auto simp: collect_iostat_metrics_def collect_meminfo_metrics_def
      split: sum.splits prod.splits)

section \<open>Output without a header\<close>

text \<open>
  C8. When no line of the iostat output contains \<open>%user\<close>, the cycle leaves the gauge
  \<open>cpu_avg_percent\<close> as it was, for every mode. When no line contains \<open>Device\<close>, the
  cycle leaves the five per-device gauges as they were, for every device.
\<close>

theorem C8_missing_header_leaves_gauges:
  "((\<forall>l \<in> set (splitlines out). \<not> contains ''%user'' l) \<longrightarrow>
      cpu_avg_percent (snd (collect_iostat_metrics fl k z (Inr out) r)) = cpu_avg_percent r) \<and>
   ((\<forall>l \<in> set (splitlines out). \<not> contains ''Device'' l) \<longrightarrow>
      io_part (snd (collect_iostat_metrics fl k z (Inr out) r)) = io_part r)"
proof (intro conjI impI)
  assume "\<forall>l \<in> set (splitlines out). \<not> contains ''%user'' l"
  then have "cpu_loop fl z (splitlines out) r = Inr r"
    by (rule cpu_loop_no_header)
  then show "cpu_avg_percent (snd (collect_iostat_metrics fl k z (Inr out) r)) = cpu_avg_percent r"
    by (simp add: snd_collect_iostat iostat_body_lines device_loop_frame)
next
  assume "\<forall>l \<in> set (splitlines out). \<not> contains ''Device'' l"
  then have dev: "device_loop fl k False (splitlines out) r' = Inr r'" for r'
    by (rule device_loop_no_header)
  have "registry_of (and_then (cpu_loop fl z (splitlines out) r)
          (device_loop fl k False (splitlines out)))
        = registry_of (cpu_loop fl z (splitlines out) r)"
    by (cases "cpu_loop fl z (splitlines out) r") (simp_all add: dev)
  then show "io_part (snd (collect_iostat_metrics fl k z (Inr out) r)) = io_part r"
    by (simp add: snd_collect_iostat iostat_body_lines cpu_loop_frame)
qed

lemma splitlines_device_only:
  "splitlines ''Device tps\<newline>sdb 1 2 3'' = [''Device tps'', ''sdb 1 2 3'']"
  by (simp add: splitlines_def islinebreak_def)

lemma splitlines_cpu_only:
  "splitlines ''%user\<newline>1 2 3 4 5 6'' = [''%user'', ''1 2 3 4 5 6'']"
  by (simp add: splitlines_def islinebreak_def)

theorem C8_missing_header_witness:
  "splitlines ''Device tps\<newline>sdb 1 2 3'' = [''Device tps'', ''sdb 1 2 3''] \<and>
   \<not> contains ''%user'' ''Device tps'' \<and> \<not> contains ''%user'' ''sdb 1 2 3'' \<and>
   cpu_avg_percent (snd (collect_iostat_metrics float_plain times_1024 0
       (Inr ''Device tps\<newline>sdb 1 2 3'') earlier_registry)) = cpu_avg_percent earlier_registry \<and>
   cpu_avg_percent earlier_registry ''user'' = Some 7 \<and>
   splitlines ''%user\<newline>1 2 3 4 5 6'' = [''%user'', ''1 2 3 4 5 6''] \<and>
   \<not> contains ''Device'' ''%user'' \<and> \<not> contains ''Device'' ''1 2 3 4 5 6'' \<and>
   io_part (snd (collect_iostat_metrics float_plain times_1024 0
       (Inr ''%user\<newline>1 2 3 4 5 6'') earlier_registry)) = io_part earlier_registry \<and>
   io_tps earlier_registry ''sda'' = Some 3"
  using C8_missing_header_leaves_gauges
          [where out = "''Device tps\<newline>sdb 1 2 3''" and fl = float_plain and k = times_1024
            and z = 0 and r = earlier_registry]
        C8_missing_header_leaves_gauges
          [where out = "''%user\<newline>1 2 3 4 5 6''" and fl = float_plain and k = times_1024
            and z = 0 and r = earlier_registry]
  by (simp add: splitlines_device_only splitlines_cpu_only earlier_registry_def empty_registry_def)

section \<open>The metric name of a meminfo key\<close>

lemma of_char_lower_char:
  "(of_char (lower_char c) :: nat) < 65 \<or> 90 < (of_char (lower_char c) :: nat)"
proof -
  let ?n = "of_char c :: nat"
  have "(of_char (char_of (?n + 32) :: char) :: nat) = (?n + 32) mod 256"
    by (rule of_char_of)
  moreover have "?n \<le> 222 \<Longrightarrow> (?n + 32) mod 256 = ?n + 32"
    by simp
  ultimately show ?thesis
    by (auto simp: lower_char_def Let_def)
qed

lemma sanitize_lower_char:
  "sanitize_char (lower_char c) = (if spec_keep (lower_char c) then lower_char c else CHR ''_'')"
  using of_char_lower_char [of c]
  by (auto simp: sanitize_char_def spec_keep_def Let_def)

lemma underscore_code: "(of_char c :: nat) = 95 \<Longrightarrow> c = CHR ''_''"
proof -
  assume "(of_char c :: nat) = 95"
  then have "(of_char c :: nat) = of_char (CHR ''_'')" by simp
  then show ?thesis by (simp only: of_char_eq_iff)
qed

lemma sanitize_lower_char_alnum:
  "sanitize_char (lower_char c) = (if ascii_alnum c then lower_char c else CHR ''_'')"
proof -
  let ?n = "of_char c :: nat"
  have up: "(of_char (char_of (?n + 32) :: char) :: nat) = (?n + 32) mod 256"
    by (rule of_char_of)
  have small: "?n \<le> 222 \<Longrightarrow> (?n + 32) mod 256 = ?n + 32"
    by simp
  show ?thesis
    using up small underscore_code [of c]
    by (auto simp: sanitize_char_def lower_char_def ascii_alnum_def Let_def)
qed

text \<open>
  C6. The metric name of a key is \<open>meminfo_\<close>, the sanitized key and \<open>_bytes\<close>, where the
  sanitized key is the lowercased key with exactly the characters outside \<open>[a-z0-9_]\<close>
  replaced by an underscore. Position by position: a letter \<open>a-z\<close>, \<open>A-Z\<close> or a digit
  of the key is kept (lowercased), every other character becomes an underscore. The key
  \<open>Hugepagesize[2]\<close> gives \<open>hugepagesize_2_\<close>.
\<close>

theorem C6_metric_name_sanitized:
  "metric_name key = spec_metric_name key \<and>
   sanitized_key key = map (\<lambda>c. if ascii_alnum c then lower_char c else CHR ''_'') key \<and>
   sanitized_key ''Hugepagesize[2]'' = ''hugepagesize_2_'' \<and>
   metric_name ''Hugepagesize[2]'' = ''meminfo_hugepagesize_2__bytes''"
proof (intro conjI)
  show "metric_name key = spec_metric_name key"
    by (simp add: metric_name_def spec_metric_name_def sanitized_key_def lower_def
        sanitize_lower_char)
  show "sanitized_key key = map (\<lambda>c. if ascii_alnum c then lower_char c else CHR ''_'') key"
    by (simp add: sanitized_key_def lower_def sanitize_lower_char_alnum)
  show "sanitized_key ''Hugepagesize[2]'' = ''hugepagesize_2_''"
    by code_simp
  show "metric_name ''Hugepagesize[2]'' = ''meminfo_hugepagesize_2__bytes''"
    by code_simp
qed

section \<open>A cycle writes the same samples whatever the registry holds\<close>

lemma keyed_idem: "keyed f \<Longrightarrow> f (f x) = f x"
  by (auto simp: keyed_def split: option.splits)

lemma keyed_id: "keyed (\<lambda>x. x)"
  by (simp add: keyed_def)

lemma keyed_const: "keyed (\<lambda>x. Some v)"
  by (auto simp: keyed_def)

lemma keyed_fill: "keyed (\<lambda>x. case x of None \<Rightarrow> Some d | Some y \<Rightarrow> Some y)"
  by (auto simp: keyed_def)

lemma keyed_comp: "keyed f \<Longrightarrow> keyed g \<Longrightarrow> keyed (\<lambda>x. g (f x))"
  unfolding keyed_def
  by (elim disjE exE) (auto simp: fun_eq_iff split: option.splits)

lemma gauge_eqI:
  "documentation g = documentation g' \<Longrightarrow> sample g = sample g' \<Longrightarrow> g = (g' :: 'f gauge)"
  by (cases g, cases g') simp

lemma view_inject:
  assumes "view r = view r'"
  shows "r = r'"
proof -
  have v: "view r s = view r' s" for s using assms by simp
  have inj: "map_option Num a = map_option Num b \<Longrightarrow> a = b" for a b :: "'a option"
    by (cases a; cases b) simp_all
  have 1: "io_read_rate r = io_read_rate r'"
    using v [of "S_read_rate _"] by (intro ext inj) (simp add: view_def)
  have 2: "io_write_rate r = io_write_rate r'"
    using v [of "S_write_rate _"] by (intro ext inj) (simp add: view_def)
  have 3: "io_tps r = io_tps r'"
    using v [of "S_tps _"] by (intro ext inj) (simp add: view_def)
  have 4: "io_read_bytes r = io_read_bytes r'"
    using v [of "S_read_bytes _"] by (intro ext inj) (simp add: view_def)
  have 5: "io_write_bytes r = io_write_bytes r'"
    using v [of "S_write_bytes _"] by (intro ext inj) (simp add: view_def)
  have 6: "cpu_avg_percent r = cpu_avg_percent r'"
    using v [of "S_cpu _"] by (intro ext inj) (simp add: view_def)
  have 7: "meminfo_gauges r = meminfo_gauges r'"
  proof (rule ext)
    fix n
    from v [of "S_doc n"] v [of "S_sample n"]
    show "meminfo_gauges r n = meminfo_gauges r' n"
      by (cases "meminfo_gauges r n"; cases "meminfo_gauges r' n")
        (auto simp: view_def intro: gauge_eqI)
  qed
  show ?thesis using 1 2 3 4 5 6 7 by simp
qed

lemma writes_id: "writes (\<lambda>r. r)"
  unfolding writes_def by (rule exI [of _ "\<lambda>s x. x"]) (simp add: keyed_id)

lemma writes_comp:
  assumes "writes T" and "writes U"
  shows "writes (\<lambda>r. U (T r))"
proof -
  from assms(1) obtain h where h: "\<And>s. keyed (h s)" "\<And>r s. view (T r) s = h s (view r s)"
    unfolding writes_def by blast
  from assms(2) obtain g where g: "\<And>s. keyed (g s)" "\<And>r s. view (U r) s = g s (view r s)"
    unfolding writes_def by blast
  show ?thesis
    unfolding writes_def
    by (rule exI [of _ "\<lambda>s x. g s (h s x)"]) (simp add: h g keyed_comp)
qed

lemma writes_idem:
  assumes "writes T"
  shows "T (T r) = T r"
proof -
  from assms obtain h where h: "\<And>s. keyed (h s)" "\<And>r s. view (T r) s = h s (view r s)"
    unfolding writes_def by blast
  have "view (T (T r)) s = view (T r) s" for s
    by (simp add: h(2) keyed_idem [OF h(1)])
  then show ?thesis by (intro view_inject ext)
qed

lemma uniform_Inr: "uniform Inr"
  unfolding uniform_def
  by (rule exI [of _ "\<lambda>r. r"], rule exI [of _ None]) (simp add: writes_id)

lemma uniformI:
  "writes T \<Longrightarrow> (\<And>r. f r = (case e of None \<Rightarrow> Inr (T r) | Some x \<Rightarrow> Inl (x, T r))) \<Longrightarrow> uniform f"
  unfolding uniform_def by blast

lemma uniform_and_then:
  assumes "uniform f" and "uniform g"
  shows "uniform (\<lambda>r. and_then (f r) g)"
proof -
  from assms(1) obtain T e where T: "writes T"
    and f: "\<And>r. f r = (case e of None \<Rightarrow> Inr (T r) | Some x \<Rightarrow> Inl (x, T r))"
    unfolding uniform_def by blast
  from assms(2) obtain U e' where U: "writes U"
    and g: "\<And>r. g r = (case e' of None \<Rightarrow> Inr (U r) | Some x \<Rightarrow> Inl (x, U r))"
    unfolding uniform_def by blast
  show ?thesis
  proof (cases e)
    case None
    show ?thesis
      by (rule uniformI [of "\<lambda>r. U (T r)" _ e']) (simp_all add: writes_comp T U f g None)
  next
    case (Some x)
    show ?thesis
      by (rule uniformI [of T _ e]) (simp_all add: T f Some)
  qed
qed

lemma uniform_idem:
  assumes "uniform f"
  shows "f (registry_of (f r)) = f r"
proof -
  from assms obtain T e where T: "writes T"
    and f: "\<And>r. f r = (case e of None \<Rightarrow> Inr (T r) | Some x \<Rightarrow> Inl (x, T r))"
    unfolding uniform_def by blast
  show ?thesis
    by (cases e) (simp_all add: f writes_idem [OF T])
qed

lemma writes_cpu_labels:
  "writes (\<lambda>r. r\<lparr>cpu_avg_percent := labels (cpu_avg_percent r) z m\<rparr>)"
  unfolding writes_def
  by (rule exI [of _ "\<lambda>s. if s = S_cpu m
        then (\<lambda>x. case x of None \<Rightarrow> Some (Num z) | Some y \<Rightarrow> Some y) else (\<lambda>x. x)"])
    (auto simp: view_def labels_def keyed_fill keyed_id split: slot.splits option.splits)

lemma writes_cpu_set:
  "writes (\<lambda>r. r\<lparr>cpu_avg_percent := (cpu_avg_percent r)(m \<mapsto> v)\<rparr>)"
  unfolding writes_def
  by (rule exI [of _ "\<lambda>s. if s = S_cpu m then (\<lambda>x. Some (Num v)) else (\<lambda>x. x)"])
    (auto simp: view_def keyed_const keyed_id split: slot.splits)

lemma uniform_set_cpu: "uniform (set_cpu fl z m field)"
proof (cases "fl field")
  case None
  show ?thesis
    by (rule uniformI [OF writes_cpu_labels [of z m], of _ "Some ValueError"])
      (simp add: set_cpu_def None)
next
  case (Some v)
  show ?thesis
    by (rule uniformI [OF writes_cpu_set [of m v], of _ None])
      (simp add: set_cpu_def Some)
qed

lemma uniform_update_cpu: "uniform (update_cpu fl z vs)"
proof (cases "length vs \<ge> 6")
  case True
  have "update_cpu fl z vs = (\<lambda>r.
        and_then (and_then (and_then (and_then (and_then
          (set_cpu fl z ''user'' (vs ! 0) r)
          (set_cpu fl z ''nice'' (vs ! 1)))
          (set_cpu fl z ''system'' (vs ! 2)))
          (set_cpu fl z ''iowait'' (vs ! 3)))
          (set_cpu fl z ''steal'' (vs ! 4)))
          (set_cpu fl z ''idle'' (vs ! 5)))"
    using True by (intro ext) (simp add: update_cpu_def)
  then show ?thesis
    by (simp only: uniform_and_then uniform_set_cpu)
next
  case False
  then have "update_cpu fl z vs = Inr" by (intro ext) (simp add: update_cpu_def)
  then show ?thesis by (simp add: uniform_Inr)
qed

lemma uniform_cpu_loop: "uniform (cpu_loop fl z ls)"
proof (induction ls)
  case Nil
  have "cpu_loop fl z [] = Inr" by (intro ext) simp
  then show ?case by (simp add: uniform_Inr)
next
  case (Cons l ls)
  show ?case
  proof (cases ls)
    case Nil
    then have "cpu_loop fl z (l # ls) = Inr" by (intro ext) simp
    then show ?thesis by (simp add: uniform_Inr)
  next
    case (Cons n rest)
    show ?thesis
    proof (cases "contains ''%user'' l")
      case True
      then have "cpu_loop fl z (l # ls) = update_cpu fl z (py_split n)"
        using Cons by (intro ext) simp
      then show ?thesis by (simp add: uniform_update_cpu)
    next
      case False
      then have "cpu_loop fl z (l # ls) = cpu_loop fl z ls"
        using Cons by (intro ext) simp
      then show ?thesis using Cons.IH by simp
    qed
  qed
qed

lemma writes_device:
  "writes (\<lambda>r. r\<lparr>io_tps := (io_tps r)(d \<mapsto> a),
                 io_read_rate := (io_read_rate r)(d \<mapsto> b),
                 io_write_rate := (io_write_rate r)(d \<mapsto> c),
                 io_read_bytes := (io_read_bytes r)(d \<mapsto> b'),
                 io_write_bytes := (io_write_bytes r)(d \<mapsto> c')\<rparr>)"
  unfolding writes_def
  by (rule exI [of _ "\<lambda>s. if s = S_tps d then (\<lambda>x. Some (Num a))
        else if s = S_read_rate d then (\<lambda>x. Some (Num b))
        else if s = S_write_rate d then (\<lambda>x. Some (Num c))
        else if s = S_read_bytes d then (\<lambda>x. Some (Num b'))
        else if s = S_write_bytes d then (\<lambda>x. Some (Num c'))
        else (\<lambda>x. x)"])
    (auto simp: view_def keyed_const keyed_id split: slot.splits)

lemma uniform_device_line: "uniform (device_line fl k l)"
proof (cases "length (py_split l) \<ge> 4")
  case False
  then have "device_line fl k l = Inr" by (intro ext) (simp add: device_line_def)
  then show ?thesis by (simp add: uniform_Inr)
next
  case True
  show ?thesis
  proof (cases "fl (py_split l ! 1) = None \<or> fl (py_split l ! 2) = None \<or> fl (py_split l ! 3) = None")
    case bad: True
    show ?thesis
      by (rule uniformI [OF writes_id, of _ "Some ValueError"])
        (use True bad in \<open>auto simp: device_line_def Let_def split: option.splits\<close>)
  next
    case False
    then obtain a b c where f: "fl (py_split l ! 1) = Some a" "fl (py_split l ! 2) = Some b"
      "fl (py_split l ! 3) = Some c" by auto
    show ?thesis
      by (rule uniformI [OF writes_device [where d = "py_split l ! 0" and a = a and b = b
              and c = c and b' = "k b" and c' = "k c"], of _ None])
        (use True f in \<open>simp add: device_line_def Let_def\<close>)
  qed
qed

lemma uniform_device_loop: "uniform (device_loop fl k ds ls)"
proof (induction ls arbitrary: ds)
  case Nil
  have "device_loop fl k ds [] = Inr" by (intro ext) simp
  then show ?case by (simp add: uniform_Inr)
next
  case (Cons l ls)
  consider (hdr) "contains ''Device'' l"
    | (rec) "\<not> contains ''Device'' l" "ds \<and> strip l \<noteq> []"
    | (skip) "\<not> contains ''Device'' l" "\<not> (ds \<and> strip l \<noteq> [])" by blast
  then show ?case
  proof cases
    case hdr
    then have "device_loop fl k ds (l # ls) = device_loop fl k True ls" by (intro ext) simp
    then show ?thesis by (simp add: Cons.IH)
  next
    case rec
    then have "device_loop fl k ds (l # ls) =
        (\<lambda>r. and_then (device_line fl k l r) (device_loop fl k ds ls))"
      by (intro ext) simp
    then show ?thesis
      by (simp only: uniform_and_then uniform_device_line Cons.IH)
  next
    case skip
    then have "device_loop fl k ds (l # ls) = device_loop fl k ds ls" by (intro ext) auto
    then show ?thesis by (simp add: Cons.IH)
  qed
qed

lemma uniform_iostat_body: "uniform (iostat_body fl k z out)"
proof -
  have "iostat_body fl k z out =
      (\<lambda>r. and_then (cpu_loop fl z (splitlines out) r) (device_loop fl k False (splitlines out)))"
    by (intro ext) (rule iostat_body_lines)
  then show ?thesis
    by (simp only: uniform_and_then uniform_cpu_loop uniform_device_loop)
qed

lemma writes_meminfo_create:
  "writes (\<lambda>r. r\<lparr>meminfo_gauges := (meminfo_gauges r)(n \<mapsto>
      (case meminfo_gauges r n of None \<Rightarrow> \<lparr>documentation = d, sample = z\<rparr> | Some g \<Rightarrow> g))\<rparr>)"
  unfolding writes_def
  by (rule exI [of _ "\<lambda>s. if s = S_doc n
        then (\<lambda>x. case x of None \<Rightarrow> Some (Txt d) | Some y \<Rightarrow> Some y)
        else if s = S_sample n
        then (\<lambda>x. case x of None \<Rightarrow> Some (Num z) | Some y \<Rightarrow> Some y)
        else (\<lambda>x. x)"])
    (auto simp: view_def keyed_fill keyed_id split: slot.splits option.splits)

lemma writes_meminfo_set:
  "writes (\<lambda>r. r\<lparr>meminfo_gauges := (meminfo_gauges r)(n \<mapsto>
      (case meminfo_gauges r n of None \<Rightarrow> \<lparr>documentation = d, sample = z\<rparr> | Some g \<Rightarrow> g)
        \<lparr>sample := v\<rparr>)\<rparr>)"
  unfolding writes_def
  by (rule exI [of _ "\<lambda>s. if s = S_doc n
        then (\<lambda>x. case x of None \<Rightarrow> Some (Txt d) | Some y \<Rightarrow> Some y)
        else if s = S_sample n then (\<lambda>x. Some (Num v))
        else (\<lambda>x. x)"])
    (auto simp: view_def keyed_fill keyed_const keyed_id split: slot.splits option.splits)

lemma uniform_set_meminfo_gauge: "uniform (set_meminfo_gauge fi z key run)"
proof (cases "py_int run")
  case None
  show ?thesis
    by (rule uniformI [OF writes_id, of _ "Some ValueError"])
      (simp add: set_meminfo_gauge_def None)
next
  case (Some n)
  show ?thesis
  proof (cases "fi (n * 1024)")
    case None
    show ?thesis
      by (rule uniformI [OF writes_meminfo_create [where n = "metric_name key"
              and d = "''Memory information: '' @ key" and z = z], of _ "Some OverflowError"])
        (simp add: set_meminfo_gauge_def Let_def Some None)
  next
    case v: (Some v)
    show ?thesis
      by (rule uniformI [OF writes_meminfo_set [where n = "metric_name key"
              and d = "''Memory information: '' @ key" and z = z and v = v], of _ None])
        (simp add: set_meminfo_gauge_def Let_def Some v)
  qed
qed

lemma uniform_meminfo_line: "uniform (meminfo_line fi z l)"
proof (cases "meminfo_entry l")
  case None
  then have "meminfo_line fi z l = Inr" by (intro ext) (simp add: meminfo_line_def)
  then show ?thesis by (simp add: uniform_Inr)
next
  case (Some a)
  then have "meminfo_line fi z l = set_meminfo_gauge fi z (fst a) (snd a)"
    by (intro ext) (simp add: meminfo_line_def split: prod.splits)
  then show ?thesis by (simp add: uniform_set_meminfo_gauge)
qed

lemma uniform_meminfo_loop: "uniform (meminfo_loop fi z ls)"
proof (induction ls)
  case Nil
  have "meminfo_loop fi z [] = Inr" by (intro ext) simp
  then show ?case by (simp add: uniform_Inr)
next
  case (Cons l ls)
  have "meminfo_loop fi z (l # ls) =
      (\<lambda>r. and_then (meminfo_line fi z l r) (meminfo_loop fi z ls))"
    by (intro ext) simp
  then show ?case
    by (simp only: uniform_and_then uniform_meminfo_line Cons.IH)
qed

lemma snd_collect_meminfo:
  "snd (collect_meminfo_metrics fi z (Inr text) r) =
     registry_of (meminfo_loop fi z (readlines text) r)"
  by (cases "meminfo_loop fi z (readlines text) r") (auto simp: collect_meminfo_metrics_def)

lemma collect_iostat_idem:
  "collect_iostat_metrics fl k z run (snd (collect_iostat_metrics fl k z run r)) =
     collect_iostat_metrics fl k z run r"
proof (cases run)
  case (Inl e)
  then show ?thesis by (simp add: collect_iostat_metrics_def)
next
  case (Inr out)
  have "iostat_body fl k z out (registry_of (iostat_body fl k z out r)) = iostat_body fl k z out r"
    by (rule uniform_idem [OF uniform_iostat_body])
  then show ?thesis
    unfolding Inr snd_collect_iostat by (simp add: collect_iostat_metrics_def)
qed

lemma collect_meminfo_idem:
  "collect_meminfo_metrics fi z file (snd (collect_meminfo_metrics fi z file r)) =
     collect_meminfo_metrics fi z file r"
proof (cases "file")
  case (Inl e)
  then show ?thesis by (simp add: collect_meminfo_metrics_def)
next
  case (Inr content)
  have "meminfo_loop fi z (readlines content)
      (registry_of (meminfo_loop fi z (readlines content) r)) =
      meminfo_loop fi z (readlines content) r"
    by (rule uniform_idem [OF uniform_meminfo_loop])
  then show ?thesis
    unfolding Inr snd_collect_meminfo by (simp add: collect_meminfo_metrics_def)
qed

text \<open>
  C5. With the same outcome of the command (the same output text, or the same failure), a
  second run of the disk sampler started from the registry the first run left returns the
  same boolean and leaves that registry as it is, also when the run raises part of the way;
  so does the memory sampler with the same outcome of the file read.
\<close>

theorem C5_samplers_idempotent:
  "collect_iostat_metrics fl k z run (snd (collect_iostat_metrics fl k z run r)) =
     collect_iostat_metrics fl k z run r \<and>
   snd (collect_iostat_metrics fl k z run (snd (collect_iostat_metrics fl k z run r))) =
     snd (collect_iostat_metrics fl k z run r) \<and>
   collect_meminfo_metrics fi z file (snd (collect_meminfo_metrics fi z file r)) =
     collect_meminfo_metrics fi z file r \<and>
   snd (collect_meminfo_metrics fi z file (snd (collect_meminfo_metrics fi z file r))) =
     snd (collect_meminfo_metrics fi z file r)"
  by (simp add: collect_iostat_idem collect_meminfo_idem)

section \<open>Lines of /proc/meminfo that carry a value\<close>

lemma gauge_sample_update:
  "g\<lparr>sample := v\<rparr> = \<lparr>documentation = documentation g, sample = v\<rparr>"
  by (cases g) simp

lemma set_meminfo_gauge_sets:
  assumes "py_int run = Some value_kb" and "fi (value_kb * 1024) = Some v"
  shows "set_meminfo_gauge fi z key run r =
     Inr (r\<lparr>meminfo_gauges := (meminfo_gauges r)(metric_name key \<mapsto>
        \<lparr>documentation = (case meminfo_gauges r (metric_name key) of
                            None \<Rightarrow> ''Memory information: '' @ key
                          | Some g \<Rightarrow> documentation g),
         sample = v\<rparr>)\<rparr>)"
  using assms
  by (simp add: set_meminfo_gauge_def Let_def gauge_sample_update split: option.splits)

lemma set_meminfo_gauge_overflow:
  assumes "py_int run = Some value_kb" and "fi (value_kb * 1024) = None"
  shows "set_meminfo_gauge fi z key run r =
     Inl (OverflowError, r\<lparr>meminfo_gauges := (meminfo_gauges r)(metric_name key \<mapsto>
        (case meminfo_gauges r (metric_name key) of
           None \<Rightarrow> \<lparr>documentation = ''Memory information: '' @ key, sample = z\<rparr>
         | Some g \<Rightarrow> g))\<rparr>)"
  using assms by (simp add: set_meminfo_gauge_def Let_def)

lemma set_meminfo_gauge_other:
  "metric_name key \<noteq> name \<Longrightarrow>
   meminfo_gauges (registry_of (set_meminfo_gauge fi z key run r)) name = meminfo_gauges r name"
  by (simp add: set_meminfo_gauge_def Let_def split: option.splits)

lemma meminfo_line_other:
  "(\<And>key run. meminfo_entry l = Some (key, run) \<Longrightarrow> metric_name key \<noteq> name) \<Longrightarrow>
   meminfo_gauges (registry_of (meminfo_line fi z l r)) name = meminfo_gauges r name"
  by (auto simp: meminfo_line_def set_meminfo_gauge_other split: option.splits)

lemma meminfo_loop_other:
  "\<forall>l \<in> set ls. \<forall>key run. meminfo_entry l = Some (key, run) \<longrightarrow> metric_name key \<noteq> name \<Longrightarrow>
   meminfo_gauges (registry_of (meminfo_loop fi z ls r)) name = meminfo_gauges r name"
proof (induction ls arbitrary: r)
  case Nil
  show ?case by simp
next
  case (Cons l ls)
  from Cons.prems
  have l: "\<And>key run. meminfo_entry l = Some (key, run) \<Longrightarrow> metric_name key \<noteq> name"
    and ls: "\<forall>l \<in> set ls. \<forall>key run. meminfo_entry l = Some (key, run) \<longrightarrow> metric_name key \<noteq> name"
    by auto
  note IH = Cons.IH [OF ls]
  show ?case
  proof (cases "meminfo_line fi z l r")
    case (Inl a)
    with meminfo_line_other [of l name fi z r] l show ?thesis
      by (cases a) auto
  next
    case (Inr r')
    with meminfo_line_other [of l name fi z r] l show ?thesis
      using IH by auto
  qed
qed

lemma meminfo_loop_append:
  "meminfo_loop fi z (xs @ ys) r = and_then (meminfo_loop fi z xs r) (meminfo_loop fi z ys)"
proof (induction xs arbitrary: r)
  case Nil
  show ?case by simp
next
  case (Cons x xs)
  have step: "meminfo_loop fi z (xs @ ys) =
      (\<lambda>r. and_then (meminfo_loop fi z xs r) (meminfo_loop fi z ys))"
    by (rule ext) (rule Cons.IH)
  show ?case
    by (simp add: step and_then_assoc)
qed

lemma metric_name_eq_iff: "metric_name a = metric_name b \<longleftrightarrow> sanitized_key a = sanitized_key b"
  by (simp add: metric_name_def)

text \<open>
  C3 (as amended). Let a line of the file contain a colon, and let the text after its first
  colon hold a run of digits, \<open>run\<close> being the first. Let the loop reach the line (no
  earlier line raised), let \<open>int\<close> accept the run and let \<open>float\<close> represent its value
  times 1024. Then the sampler creates the gauge \<open>meminfo_\<close> + sanitized lowercase key +
  \<open>_bytes\<close> when the name is new (with the help text naming the key), keeps the gauge
  when the name is known, and sets it to the float of \<open>int(run) * 1024\<close>, whatever the
  key; the rest of the cycle starts from that registry. The line
  \<open>MemTotal:       16384 kB\<close> gives \<open>meminfo_memtotal_bytes\<close> the value 16777216.
\<close>

theorem C3_meminfo_line_sets_gauge:
  assumes "readlines text = pre @ line # post"
    and "meminfo_loop fi z pre r = Inr r1"
    and "CHR '':'' \<in> set line"
    and "first_digits (strip (tl (dropWhile (\<lambda>c. c \<noteq> CHR '':'') line))) = Some run"
    and "py_int run = Some value_kb"
    and "fi (value_kb * 1024) = Some v"
  shows "let key = strip (takeWhile (\<lambda>c. c \<noteq> CHR '':'') line);
             name = ''meminfo_'' @ sanitized_key key @ ''_bytes'';
             r2 = r1\<lparr>meminfo_gauges := (meminfo_gauges r1)(name \<mapsto>
                    \<lparr>documentation = (case meminfo_gauges r1 name of
                                        None \<Rightarrow> ''Memory information: '' @ key
                                      | Some g \<Rightarrow> documentation g),
                     sample = v\<rparr>)\<rparr>
         in meminfo_loop fi z (pre @ [line]) r = Inr r2 \<and>
            snd (collect_meminfo_metrics fi z (Inr text) r) =
              registry_of (meminfo_loop fi z post r2)"
proof -
  let ?key = "strip (takeWhile (\<lambda>c. c \<noteq> CHR '':'') line)"
  have entry: "meminfo_entry line = Some (?key, run)"
    using assms(3,4) by (simp add: meminfo_entry_def Let_def)
  have line: "meminfo_line fi z line r1 =
      Inr (r1\<lparr>meminfo_gauges := (meminfo_gauges r1)(metric_name ?key \<mapsto>
        \<lparr>documentation = (case meminfo_gauges r1 (metric_name ?key) of
                            None \<Rightarrow> ''Memory information: '' @ ?key
                          | Some g \<Rightarrow> documentation g),
         sample = v\<rparr>)\<rparr>)"
    using entry set_meminfo_gauge_sets [where fi = fi, OF assms(5,6)] by (simp add: meminfo_line_def)
  have whole: "meminfo_loop fi z (pre @ line # post) r =
      and_then (meminfo_line fi z line r1) (meminfo_loop fi z post)"
    using assms(2) by (simp add: meminfo_loop_append)
  have upto: "meminfo_loop fi z (pre @ [line]) r = meminfo_line fi z line r1"
    using assms(2) by (cases "meminfo_line fi z line r1") (simp_all add: meminfo_loop_append)
  show ?thesis
    using assms(1) whole upto line
    by (simp add: Let_def snd_collect_meminfo metric_name_def)
qed

lemma memtotal_readlines:
  "readlines ''MemTotal:       16384 kB\<newline>'' = [] @ ''MemTotal:       16384 kB\<newline>'' # []"
  by code_simp

lemma memtotal_digits:
  "first_digits (strip (tl (dropWhile (\<lambda>c. c \<noteq> CHR '':'') ''MemTotal:       16384 kB\<newline>''))) = Some ''16384''"
  by code_simp

lemma memtotal_key:
  "strip (takeWhile (\<lambda>c. c \<noteq> CHR '':'') ''MemTotal:       16384 kB\<newline>'') = ''MemTotal''"
  by code_simp

lemma memtotal_name: "sanitized_key ''MemTotal'' = ''memtotal''"
  by code_simp

lemma memtotal_int: "py_int ''16384'' = Some 16384"
  by code_simp

lemma memtotal_float: "float_of_int (16384 * 1024) = Some 16777216"
  by (simp add: float_of_int_def)

theorem C3_meminfo_line_witness:
  "readlines ''MemTotal:       16384 kB\<newline>'' = [''MemTotal:       16384 kB\<newline>''] \<and>
   CHR '':'' \<in> set ''MemTotal:       16384 kB\<newline>'' \<and>
   first_digits (strip (tl (dropWhile (\<lambda>c. c \<noteq> CHR '':'') ''MemTotal:       16384 kB\<newline>''))) = Some ''16384'' \<and>
   py_int ''16384'' = Some 16384 \<and>
   float_of_int (16384 * 1024) = Some 16777216 \<and>
   meminfo_gauges (snd (collect_meminfo_metrics float_of_int 0
       (Inr ''MemTotal:       16384 kB\<newline>'') empty_registry)) ''meminfo_memtotal_bytes'' =
     Some \<lparr>documentation = ''Memory information: MemTotal'', sample = 16777216\<rparr>"
proof -
  have c: "CHR '':'' \<in> set ''MemTotal:       16384 kB\<newline>''" by simp
  have pre: "meminfo_loop float_of_int 0 [] (empty_registry :: rat registry) = Inr empty_registry"
    by simp
  note inst = C3_meminfo_line_sets_gauge [OF memtotal_readlines pre c memtotal_digits
      memtotal_int memtotal_float, unfolded Let_def memtotal_key memtotal_name]
  have e: "meminfo_gauges (empty_registry :: rat registry) ''meminfo_memtotal_bytes'' = None"
    by (simp add: empty_registry_def)
  show ?thesis
    using inst memtotal_readlines memtotal_digits memtotal_int memtotal_float e
    by simp
qed

text \<open>
  The claim as stated covers every line with a colon and a digit run. The conversions are
  inside the same \<open>try\<close> block: below, the first line carries \<open>10^309\<close> kB, its gauge is
  created, \<open>set\<close> raises on the conversion to a float, the cycle returns \<open>False\<close>, and
  the line \<open>MemTotal:       16384 kB\<close> after it is never read.
\<close>

lemma readlines_acc_line:
  "CHR 0x0A \<notin> set s \<Longrightarrow>
   readlines_acc acc (s @ CHR 0x0A # t) = (rev acc @ s @ [CHR 0x0A]) # readlines_acc [] t"
  by (induction s arbitrary: acc) auto

lemma readlines_big_line: "readlines (big_line @ t) = big_line # readlines t"
proof -
  have "CHR 0x0A \<notin> set (''Big:1'' @ replicate 309 (CHR ''0''))" by simp
  from readlines_acc_line [OF this, of "[]" t] show ?thesis
    by (simp add: readlines_def big_line_def)
qed

lemma digit_not_space: "isdigit c \<Longrightarrow> \<not> isspace c"
  by (auto simp: isdigit_def isspace_def)

lemma dropWhile_hd: "xs \<noteq> [] \<Longrightarrow> \<not> P (hd xs) \<Longrightarrow> dropWhile P xs = xs"
  by (cases xs) simp_all

lemma strip_digits_newline:
  assumes "ds \<noteq> []" and "\<forall>c \<in> set ds. isdigit c"
  shows "strip (ds @ [CHR 0x0A]) = ds"
proof -
  have front: "dropWhile isspace (ds @ [CHR 0x0A]) = ds @ [CHR 0x0A]"
    using assms by (intro dropWhile_hd) (auto simp: digit_not_space)
  have "\<not> isspace (hd (rev ds))"
    using assms by (simp add: hd_rev digit_not_space)
  then have rear: "dropWhile isspace (rev ds) = rev ds"
    using assms(1) by (intro dropWhile_hd) simp_all
  have nl: "isspace (CHR 0x0A)" by (simp add: isspace_def)
  show ?thesis
    by (simp add: strip_def front rear nl)
qed

lemma first_digits_all:
  assumes "ds \<noteq> []" and "\<forall>c \<in> set ds. isdigit c"
  shows "first_digits ds = Some ds"
proof -
  have dw: "dropWhile (\<lambda>c. \<not> isdigit c) ds = ds"
    using assms by (intro dropWhile_hd) auto
  have tw: "takeWhile isdigit ds = ds"
    using assms(2) by (simp add: takeWhile_eq_all_conv)
  show ?thesis
    unfolding first_digits_def Let_def dw tw using assms(1) by simp
qed

lemma meminfo_entry_big:
  assumes "ds \<noteq> []" and "\<forall>c \<in> set ds. isdigit c"
  shows "meminfo_entry (''Big:'' @ ds @ [CHR 0x0A]) = Some (''Big'', ds)"
proof -
  have "strip ''Big'' = ''Big''" by code_simp
  then show ?thesis
    by (simp add: meminfo_entry_def strip_digits_newline [OF assms] first_digits_all [OF assms])
qed

lemma digits_val_zeros: "digits_val (ds @ replicate n (CHR ''0'')) = digits_val ds * 10 ^ n"
proof (induction n)
  case 0
  show ?case by simp
next
  case (Suc n)
  have "ds @ replicate (Suc n) (CHR ''0'') = (ds @ replicate n (CHR ''0'')) @ [CHR ''0'']"
    by (simp add: replicate_append_same)
  then have "digits_val (ds @ replicate (Suc n) (CHR ''0'')) =
      10 * digits_val (ds @ replicate n (CHR ''0''))"
    by (simp only: digits_val_def foldl_append) simp
  with Suc show ?case by simp
qed

lemma big_digits:
  "CHR ''1'' # replicate 309 (CHR ''0'') \<noteq> []"
  "\<forall>c \<in> set (CHR ''1'' # replicate 309 (CHR ''0'')). isdigit c"
  by (simp_all add: isdigit_def)

lemma big_entry: "meminfo_entry big_line = Some (''Big'', CHR ''1'' # replicate 309 (CHR ''0''))"
  using meminfo_entry_big [OF big_digits] by (simp add: big_line_def)

lemma big_int: "py_int (CHR ''1'' # replicate 309 (CHR ''0'')) = Some (10 ^ 309)"
proof -
  have "digits_val (''1'' @ replicate 309 (CHR ''0'')) = digits_val ''1'' * 10 ^ 309"
    by (rule digits_val_zeros)
  moreover have "digits_val ''1'' = 1" by (simp add: digits_val_def)
  ultimately show ?thesis
    by (simp add: py_int_def int_max_str_digits_def)
qed

lemma big_float: "float_of_int (10 ^ 309 * 1024) = None"
  by (simp add: float_of_int_def)

lemma big_name: "metric_name ''Big'' = ''meminfo_big_bytes''"
  by code_simp

lemma big_line_raises:
  "meminfo_line float_of_int 0 big_line r =
     Inl (OverflowError, r\<lparr>meminfo_gauges := (meminfo_gauges r)(''meminfo_big_bytes'' \<mapsto>
        (case meminfo_gauges r ''meminfo_big_bytes'' of
           None \<Rightarrow> \<lparr>documentation = ''Memory information: Big'', sample = 0\<rparr>
         | Some g \<Rightarrow> g))\<rparr>)"
  using set_meminfo_gauge_overflow [where fi = float_of_int and z = 0 and key = "''Big''"
      and r = r, OF big_int big_float]
  by (simp add: meminfo_line_def big_entry big_name split: option.splits)

theorem C3_unreached_line_counterexample:
  "CHR '':'' \<in> set ''MemTotal:       16384 kB\<newline>'' \<and>
   first_digits (strip (tl (dropWhile (\<lambda>c. c \<noteq> CHR '':'') ''MemTotal:       16384 kB\<newline>''))) = Some ''16384'' \<and>
   readlines (big_line @ ''MemTotal:       16384 kB\<newline>'') =
     [big_line, ''MemTotal:       16384 kB\<newline>''] \<and>
   collect_meminfo_metrics float_of_int 0
     (Inr (big_line @ ''MemTotal:       16384 kB\<newline>'')) empty_registry =
     (False, empty_registry\<lparr>meminfo_gauges := [''meminfo_big_bytes'' \<mapsto>
        \<lparr>documentation = ''Memory information: Big'', sample = 0\<rparr>]\<rparr>)"
proof -
  have lines: "readlines (big_line @ ''MemTotal:       16384 kB\<newline>'') =
      [big_line, ''MemTotal:       16384 kB\<newline>'']"
    using memtotal_readlines by (simp add: readlines_big_line)
  have "meminfo_loop float_of_int 0 [big_line, ''MemTotal:       16384 kB\<newline>'']
      (empty_registry :: rat registry) =
      Inl (OverflowError, empty_registry\<lparr>meminfo_gauges := [''meminfo_big_bytes'' \<mapsto>
        \<lparr>documentation = ''Memory information: Big'', sample = 0\<rparr>]\<rparr>)"
    by (simp add: big_line_raises empty_registry_def)
  then show ?thesis
    using lines memtotal_digits by (simp add: collect_meminfo_metrics_def)
qed

text \<open>
  C9 (as amended). Let two lines of the file that carry a digit run have keys with the same
  sanitized key; they name the same metric. Let no line up to the later of the two raise,
  that line included, and let no line after it that carries a digit run have that
  sanitized key. Then the metric holds, at the end of the cycle, the float of the later
  line's value times 1024, whatever the lines after it do.
\<close>

theorem C9_last_duplicate_wins:
  assumes "readlines text = pre @ l1 # mid @ l2 # post"
    and "meminfo_entry l1 = Some (key1, run1)"
    and "meminfo_entry l2 = Some (key2, run2)"
    and "sanitized_key key1 = sanitized_key key2"
    and "\<forall>l \<in> set post. \<forall>key run. meminfo_entry l = Some (key, run) \<longrightarrow>
           sanitized_key key \<noteq> sanitized_key key2"
    and "meminfo_loop fi z (pre @ l1 # mid) r = Inr r1"
    and "py_int run2 = Some value_kb"
    and "fi (value_kb * 1024) = Some v"
  shows "metric_name key1 = metric_name key2 \<and>
         map_option sample
           (meminfo_gauges (snd (collect_meminfo_metrics fi z (Inr text) r)) (metric_name key2)) =
           Some v"
proof -
  let ?r2 = "r1\<lparr>meminfo_gauges := (meminfo_gauges r1)(metric_name key2 \<mapsto>
        \<lparr>documentation = (case meminfo_gauges r1 (metric_name key2) of
                            None \<Rightarrow> ''Memory information: '' @ key2
                          | Some g \<Rightarrow> documentation g),
         sample = v\<rparr>)\<rparr>"
  have line: "meminfo_line fi z l2 r1 = Inr ?r2"
    using assms(3) set_meminfo_gauge_sets [where fi = fi, OF assms(7,8)] by (simp add: meminfo_line_def)
  have "meminfo_loop fi z ((pre @ l1 # mid) @ l2 # post) r = meminfo_loop fi z post ?r2"
    unfolding meminfo_loop_append [of fi z "pre @ l1 # mid"]
    using assms(6) line by simp
  then have whole: "meminfo_loop fi z (readlines text) r = meminfo_loop fi z post ?r2"
    using assms(1) by simp
  have later: "\<forall>l \<in> set post. \<forall>key run. meminfo_entry l = Some (key, run) \<longrightarrow>
      metric_name key \<noteq> metric_name key2"
    using assms(5) by (simp add: metric_name_eq_iff)
  have "meminfo_gauges (registry_of (meminfo_loop fi z post ?r2)) (metric_name key2) =
      meminfo_gauges ?r2 (metric_name key2)"
    using later by (rule meminfo_loop_other)
  then show ?thesis
    using assms(4) whole by (simp add: snd_collect_meminfo metric_name_eq_iff)
qed

lemma duplicate_readlines:
  "readlines ''MemTotal: 1 kB\<newline>memtotal: 2 kB\<newline>Other: 3 kB\<newline>'' =
     [] @ ''MemTotal: 1 kB\<newline>'' # [] @ ''memtotal: 2 kB\<newline>'' # [''Other: 3 kB\<newline>'']"
  by code_simp

lemma duplicate_entries:
  "meminfo_entry ''MemTotal: 1 kB\<newline>'' = Some (''MemTotal'', ''1'')"
  "meminfo_entry ''memtotal: 2 kB\<newline>'' = Some (''memtotal'', ''2'')"
  "meminfo_entry ''Other: 3 kB\<newline>'' = Some (''Other'', ''3'')"
  by code_simp+

lemma duplicate_keys:
  "sanitized_key ''MemTotal'' = ''memtotal''"
  "sanitized_key ''memtotal'' = ''memtotal''"
  "sanitized_key ''Other'' = ''other''"
  by code_simp+

lemma small_ints:
  "py_int ''1'' = Some 1" "py_int ''2'' = Some 2" "py_int ''3'' = Some 3"
  by code_simp+

lemma small_int_floats:
  "float_of_int (1 * 1024) = Some 1024" "float_of_int (2 * 1024) = Some 2048"
  "float_of_int (3 * 1024) = Some 3072"
  "float_of_int 1024 = Some 1024" "float_of_int 2048 = Some 2048"
  "float_of_int 3072 = Some 3072"
  by (simp_all add: float_of_int_def)

lemma first_duplicate_runs:
  "\<exists>r1. meminfo_loop float_of_int 0 ([] @ ''MemTotal: 1 kB\<newline>'' # []) earlier_registry = Inr r1"
  by (simp add: meminfo_line_def duplicate_entries set_meminfo_gauge_def small_ints
      small_int_floats Let_def)

theorem C9_last_duplicate_witness:
  "readlines ''MemTotal: 1 kB\<newline>memtotal: 2 kB\<newline>Other: 3 kB\<newline>'' =
     [''MemTotal: 1 kB\<newline>'', ''memtotal: 2 kB\<newline>'', ''Other: 3 kB\<newline>''] \<and>
   meminfo_entry ''MemTotal: 1 kB\<newline>'' = Some (''MemTotal'', ''1'') \<and>
   meminfo_entry ''memtotal: 2 kB\<newline>'' = Some (''memtotal'', ''2'') \<and>
   meminfo_entry ''Other: 3 kB\<newline>'' = Some (''Other'', ''3'') \<and>
   sanitized_key ''MemTotal'' = sanitized_key ''memtotal'' \<and>
   sanitized_key ''Other'' \<noteq> sanitized_key ''memtotal'' \<and>
   py_int ''2'' = Some 2 \<and> float_of_int (2 * 1024) = Some 2048 \<and>
   metric_name ''MemTotal'' = metric_name ''memtotal'' \<and>
   map_option sample
     (meminfo_gauges
        (snd (collect_meminfo_metrics float_of_int 0
           (Inr ''MemTotal: 1 kB\<newline>memtotal: 2 kB\<newline>Other: 3 kB\<newline>'')
           earlier_registry))
        (metric_name ''memtotal'')) = Some 2048"
proof -
  have keys: "sanitized_key ''MemTotal'' = sanitized_key ''memtotal''"
    by (simp add: duplicate_keys)
  have later: "\<forall>l \<in> set [''Other: 3 kB\<newline>'']. \<forall>key run. meminfo_entry l = Some (key, run) \<longrightarrow>
      sanitized_key key \<noteq> sanitized_key ''memtotal''"
    by (simp add: duplicate_entries duplicate_keys)
  from first_duplicate_runs obtain r1
    where r1: "meminfo_loop float_of_int 0 ([] @ ''MemTotal: 1 kB\<newline>'' # []) earlier_registry = Inr r1"
    by blast
  from C9_last_duplicate_wins [OF duplicate_readlines duplicate_entries(1) duplicate_entries(2)
      keys later r1 small_ints(2) small_int_floats(2)]
  show ?thesis
    using duplicate_readlines
    by (simp add: duplicate_entries duplicate_keys small_ints small_int_floats)
qed

text \<open>
  The claim as stated has no condition on the lines between the two. Below, the line
  between them carries \<open>10^309\<close> kB: \<open>set\<close> raises on it, the cycle returns \<open>False\<close>,
  the later line \<open>x: 2 kB\<close> is never read, and the metric keeps the value of the earlier
  line \<open>X: 1 kB\<close>.
\<close>

lemma x_lines:
  "readlines (''X: 1 kB\<newline>'' @ big_line @ ''x: 2 kB\<newline>'') =
     [''X: 1 kB\<newline>'', big_line, ''x: 2 kB\<newline>'']"
proof -
  have "readlines (''X: 1 kB'' @ CHR 0x0A # big_line @ ''x: 2 kB\<newline>'') =
      (''X: 1 kB'' @ [CHR 0x0A]) # readlines (big_line @ ''x: 2 kB\<newline>'')"
    unfolding readlines_def by (subst readlines_acc_line) simp_all
  moreover have "readlines ''x: 2 kB\<newline>'' = [''x: 2 kB\<newline>'']" by code_simp
  ultimately show ?thesis
    by (simp add: readlines_big_line)
qed

lemma x_entries:
  "meminfo_entry ''X: 1 kB\<newline>'' = Some (''X'', ''1'')"
  "meminfo_entry ''x: 2 kB\<newline>'' = Some (''x'', ''2'')"
  by code_simp+

lemma x_keys:
  "sanitized_key ''X'' = ''x''" "sanitized_key ''x'' = ''x''"
  "metric_name ''X'' = ''meminfo_x_bytes''" "metric_name ''x'' = ''meminfo_x_bytes''"
  by code_simp+

theorem C9_raise_between_counterexample:
  "readlines (''X: 1 kB\<newline>'' @ big_line @ ''x: 2 kB\<newline>'') =
     [''X: 1 kB\<newline>'', big_line, ''x: 2 kB\<newline>''] \<and>
   meminfo_entry ''X: 1 kB\<newline>'' = Some (''X'', ''1'') \<and>
   meminfo_entry ''x: 2 kB\<newline>'' = Some (''x'', ''2'') \<and>
   sanitized_key ''X'' = sanitized_key ''x'' \<and>
   py_int ''2'' = Some 2 \<and> float_of_int (2 * 1024) = Some 2048 \<and>
   fst (collect_meminfo_metrics float_of_int 0
     (Inr (''X: 1 kB\<newline>'' @ big_line @ ''x: 2 kB\<newline>'')) empty_registry) = False \<and>
   map_option sample
     (meminfo_gauges
        (snd (collect_meminfo_metrics float_of_int 0
           (Inr (''X: 1 kB\<newline>'' @ big_line @ ''x: 2 kB\<newline>'')) empty_registry))
        (metric_name ''x'')) = Some 1024"
proof -
  have "meminfo_loop float_of_int 0 [''X: 1 kB\<newline>'', big_line, ''x: 2 kB\<newline>'']
      (empty_registry :: rat registry) =
      Inl (OverflowError, empty_registry\<lparr>meminfo_gauges :=
        [''meminfo_x_bytes'' \<mapsto> \<lparr>documentation = ''Memory information: X'', sample = 1024\<rparr>,
         ''meminfo_big_bytes'' \<mapsto> \<lparr>documentation = ''Memory information: Big'', sample = 0\<rparr>]\<rparr>)"
    by (simp add: meminfo_line_def [of _ _ "''X: 1 kB\<newline>''"] x_entries set_meminfo_gauge_def
        small_ints small_int_floats x_keys Let_def big_line_raises empty_registry_def)
  then show ?thesis
    using x_lines
    by (simp add: collect_meminfo_metrics_def x_entries x_keys small_ints small_int_floats)
qed

section \<open>The two loops of the disk sampler\<close>

lemma cpu_loop_first_header:
  "\<forall>l \<in> set pre. \<not> contains ''%user'' l \<Longrightarrow> contains ''%user'' hdr \<Longrightarrow>
   cpu_loop fl z (pre @ hdr # dat # post) r = update_cpu fl z (py_split dat) r"
proof (induction pre)
  case Nil
  then show ?case by simp
next
  case (Cons p ps)
  then show ?case by (cases ps) simp_all
qed


lemma update_cpu_numeric:
  assumes "length vs \<ge> 6"
    and "fl (vs ! 0) = Some v0" and "fl (vs ! 1) = Some v1" and "fl (vs ! 2) = Some v2"
    and "fl (vs ! 3) = Some v3" and "fl (vs ! 4) = Some v4" and "fl (vs ! 5) = Some v5"
  shows "update_cpu fl z vs r =
     Inr (r\<lparr>cpu_avg_percent := (cpu_avg_percent r)(''user'' \<mapsto> v0, ''nice'' \<mapsto> v1,
        ''system'' \<mapsto> v2, ''iowait'' \<mapsto> v3, ''steal'' \<mapsto> v4, ''idle'' \<mapsto> v5)\<rparr>)"
  using assms by (simp add: update_cpu_def set_cpu_def)

lemma split_acc_blank: "\<forall>c \<in> set s. isspace c \<Longrightarrow> split_acc [] s = []"
  by (induction s) simp_all

lemma strip_empty_blank: "strip s = [] \<Longrightarrow> \<forall>c \<in> set s. isspace c"
proof -
  assume "strip s = []"
  then have "dropWhile isspace (rev (dropWhile isspace s)) = []"
    by (simp add: strip_def)
  then have all: "\<forall>c \<in> set (dropWhile isspace s). isspace c"
    by (simp add: dropWhile_eq_Nil_conv)
  have "dropWhile isspace s = []"
  proof (cases "dropWhile isspace s")
    case Nil
    then show ?thesis .
  next
    case (Cons c cs)
    then have "\<not> isspace c" using hd_dropWhile [of isspace s] by simp
    moreover have "isspace c" using all Cons by simp
    ultimately show ?thesis by simp
  qed
  then show ?thesis by (simp add: dropWhile_eq_Nil_conv)
qed

lemma py_split_strip: "py_split s \<noteq> [] \<Longrightarrow> strip s \<noteq> []"
  using strip_empty_blank [of s] split_acc_blank [of s] by (auto simp: py_split_def)

lemma device_loop_append:
  "device_loop fl k ds (xs @ ys) r =
     and_then (device_loop fl k ds xs r)
       (device_loop fl k (ds \<or> (\<exists>h \<in> set xs. contains ''Device'' h)) ys)"
proof (induction xs arbitrary: ds r)
  case Nil
  show ?case by simp
next
  case (Cons x xs)
  have step: "device_loop fl k ds' (xs @ ys) =
      (\<lambda>r. and_then (device_loop fl k ds' xs r)
         (device_loop fl k (ds' \<or> (\<exists>h \<in> set xs. contains ''Device'' h)) ys))" for ds'
    by (rule ext) (rule Cons.IH)
  show ?case
    by (simp add: step and_then_assoc)
qed



lemma device_line_raises:
  assumes "length (py_split l) \<ge> 4"
    and "fl (py_split l ! 1) = None \<or> fl (py_split l ! 2) = None \<or> fl (py_split l ! 3) = None"
  shows "device_line fl k l r = Inl (ValueError, r)"
  using assms by (auto simp: device_line_def Let_def split: option.splits)



section \<open>The CPU line\<close>

text \<open>
  C1 (as amended). Let the first line of the iostat output that contains \<open>%user\<close> be
  followed by a line with at least six whitespace-separated fields, of which the first six
  convert to floats. Then the cycle sets the gauge \<open>cpu_avg_percent\<close> for the modes user,
  nice, system, iowait, steal and idle to fields 1 to 6 of that following line, in this
  order, and leaves every other mode as it was; this holds whatever the device loop does
  afterwards.
\<close>

theorem C1_cpu_modes_positional:
  assumes "splitlines out = pre @ hdr # dat # post"
    and "\<forall>l \<in> set pre. \<not> contains ''%user'' l"
    and "contains ''%user'' hdr"
    and "length (py_split dat) \<ge> 6"
    and "fl (py_split dat ! 0) = Some user" and "fl (py_split dat ! 1) = Some nice"
    and "fl (py_split dat ! 2) = Some system" and "fl (py_split dat ! 3) = Some iowait"
    and "fl (py_split dat ! 4) = Some steal" and "fl (py_split dat ! 5) = Some idle"
  shows "cpu_avg_percent (snd (collect_iostat_metrics fl k z (Inr out) r)) =
           (cpu_avg_percent r)(''user'' \<mapsto> user, ''nice'' \<mapsto> nice, ''system'' \<mapsto> system,
              ''iowait'' \<mapsto> iowait, ''steal'' \<mapsto> steal, ''idle'' \<mapsto> idle)"
proof -
  have "cpu_loop fl z (splitlines out) r = update_cpu fl z (py_split dat) r"
    using assms(1-3) by (simp add: cpu_loop_first_header)
  also have "\<dots> = Inr (r\<lparr>cpu_avg_percent := (cpu_avg_percent r)(''user'' \<mapsto> user,
      ''nice'' \<mapsto> nice, ''system'' \<mapsto> system, ''iowait'' \<mapsto> iowait, ''steal'' \<mapsto> steal,
      ''idle'' \<mapsto> idle)\<rparr>)"
    using assms(4-10) by (rule update_cpu_numeric)
  finally show ?thesis
    by (simp add: snd_collect_iostat iostat_body_lines device_loop_frame)
qed

lemma cpu_text_lines:
  "splitlines ''avg-cpu: %user %nice\<newline> 1.5 0.0 0.5 0.1 0.0 97.9\<newline>'' =
     [] @ ''avg-cpu: %user %nice'' # '' 1.5 0.0 0.5 0.1 0.0 97.9'' # []"
  by code_simp

lemma cpu_text_fields:
  "py_split '' 1.5 0.0 0.5 0.1 0.0 97.9'' = [''1.5'', ''0.0'', ''0.5'', ''0.1'', ''0.0'', ''97.9'']"
  by code_simp

lemma cpu_text_floats:
  "float_plain ''1.5'' = Some (3 / 2)" "float_plain ''0.0'' = Some 0"
  "float_plain ''0.5'' = Some (1 / 2)" "float_plain ''0.1'' = Some (1 / 10)"
  "float_plain ''97.9'' = Some (979 / 10)"
  by (simp_all add: float_plain_def unsigned_plain_def strip_def isspace_def isdigit_def
      digits_val_def)

theorem C1_cpu_modes_witness:
  "splitlines ''avg-cpu: %user %nice\<newline> 1.5 0.0 0.5 0.1 0.0 97.9\<newline>'' =
     [''avg-cpu: %user %nice'', '' 1.5 0.0 0.5 0.1 0.0 97.9''] \<and>
   contains ''%user'' ''avg-cpu: %user %nice'' \<and>
   map float_plain (py_split '' 1.5 0.0 0.5 0.1 0.0 97.9'') =
     [Some (3 / 2), Some 0, Some (1 / 2), Some (1 / 10), Some 0, Some (979 / 10)] \<and>
   cpu_avg_percent (snd (collect_iostat_metrics float_plain times_1024 0
       (Inr ''avg-cpu: %user %nice\<newline> 1.5 0.0 0.5 0.1 0.0 97.9\<newline>'') earlier_registry)) =
     [''user'' \<mapsto> 3 / 2, ''nice'' \<mapsto> 0, ''system'' \<mapsto> 1 / 2, ''iowait'' \<mapsto> 1 / 10,
      ''steal'' \<mapsto> 0, ''idle'' \<mapsto> 979 / 10]"
proof -
  have hdr: "contains ''%user'' ''avg-cpu: %user %nice''" by simp
  have pre: "\<forall>l \<in> set []. \<not> contains ''%user'' l" by simp
  have len: "length (py_split '' 1.5 0.0 0.5 0.1 0.0 97.9'') \<ge> 6"
    by (simp add: cpu_text_fields)
  have f: "float_plain (py_split '' 1.5 0.0 0.5 0.1 0.0 97.9'' ! 0) = Some (3 / 2)"
    "float_plain (py_split '' 1.5 0.0 0.5 0.1 0.0 97.9'' ! 1) = Some 0"
    "float_plain (py_split '' 1.5 0.0 0.5 0.1 0.0 97.9'' ! 2) = Some (1 / 2)"
    "float_plain (py_split '' 1.5 0.0 0.5 0.1 0.0 97.9'' ! 3) = Some (1 / 10)"
    "float_plain (py_split '' 1.5 0.0 0.5 0.1 0.0 97.9'' ! 4) = Some 0"
    "float_plain (py_split '' 1.5 0.0 0.5 0.1 0.0 97.9'' ! 5) = Some (979 / 10)"
    by (simp_all add: cpu_text_fields cpu_text_floats)
  have old: "cpu_avg_percent earlier_registry = [''user'' \<mapsto> 7, ''idle'' \<mapsto> 93]"
    by (simp add: earlier_registry_def empty_registry_def)
  from C1_cpu_modes_positional [OF cpu_text_lines pre hdr len f,
      where k = times_1024 and z = 0 and r = earlier_registry]
  have "cpu_avg_percent (snd (collect_iostat_metrics float_plain times_1024 0
       (Inr ''avg-cpu: %user %nice\<newline> 1.5 0.0 0.5 0.1 0.0 97.9\<newline>'') earlier_registry)) =
     [''user'' \<mapsto> 7, ''idle'' \<mapsto> 93](''user'' \<mapsto> 3 / 2, ''nice'' \<mapsto> 0, ''system'' \<mapsto> 1 / 2,
        ''iowait'' \<mapsto> 1 / 10, ''steal'' \<mapsto> 0, ''idle'' \<mapsto> 979 / 10)"
    by (simp only: old)
  also have "\<dots> = [''user'' \<mapsto> 3 / 2, ''nice'' \<mapsto> 0, ''system'' \<mapsto> 1 / 2, ''iowait'' \<mapsto> 1 / 10,
      ''steal'' \<mapsto> 0, ''idle'' \<mapsto> 979 / 10]"
    by (rule ext) simp
  finally show ?thesis
    using cpu_text_lines hdr by (simp add: cpu_text_fields cpu_text_floats)
qed

text \<open>
  The claim as stated speaks of some line with \<open>%user\<close>. The loop stops at the first: in
  the output below the third line contains \<open>%user\<close> and is followed by six numeric
  fields, yet the cycle succeeds and sets no mode, because the line after the first
  \<open>%user\<close> line has one field.
\<close>

lemma two_headers_lines:
  "splitlines ''%user\<newline>-\<newline>%user\<newline>1 2 3 4 5 6'' = [''%user'', ''-'', ''%user'', ''1 2 3 4 5 6'']"
  by code_simp

lemma two_headers_fields:
  "py_split ''-'' = [''-'']"
  "py_split ''%user'' = [''%user'']"
  "py_split ''1 2 3 4 5 6'' = [''1'', ''2'', ''3'', ''4'', ''5'', ''6'']"
  by code_simp+

lemma small_floats:
  "float_plain ''1'' = Some 1" "float_plain ''2'' = Some 2" "float_plain ''3'' = Some 3"
  "float_plain ''4'' = Some 4" "float_plain ''5'' = Some 5" "float_plain ''6'' = Some 6"
  by (simp_all add: float_plain_def unsigned_plain_def strip_def isspace_def isdigit_def
      digits_val_def)

theorem C1_later_header_counterexample:
  "contains ''%user'' (splitlines ''%user\<newline>-\<newline>%user\<newline>1 2 3 4 5 6'' ! 2) \<and>
   map float_plain (py_split (splitlines ''%user\<newline>-\<newline>%user\<newline>1 2 3 4 5 6'' ! 3)) =
     [Some 1, Some 2, Some 3, Some 4, Some 5, Some 6] \<and>
   collect_iostat_metrics float_plain times_1024 0
     (Inr ''%user\<newline>-\<newline>%user\<newline>1 2 3 4 5 6'') empty_registry = (True, empty_registry) \<and>
   cpu_avg_percent (empty_registry :: rat registry) ''user'' = None"
proof -
  have "iostat_body float_plain times_1024 0 ''%user\<newline>-\<newline>%user\<newline>1 2 3 4 5 6'' empty_registry
        = Inr empty_registry"
    by (simp add: iostat_body_lines two_headers_lines two_headers_fields update_cpu_def)
  then show ?thesis
    by (simp add: collect_iostat_metrics_def two_headers_lines two_headers_fields small_floats
        empty_registry_def)
qed

section \<open>Device lines\<close>



text \<open>
  C10 (as amended). Let a line come after a line containing \<open>Device\<close>, not contain
  \<open>Device\<close> itself, have at least four whitespace-separated fields, and let its field 2,
  3 or 4 not convert to a float. Then the cycle returns \<open>False\<close>, and the registry it
  leaves is the one after the CPU loop and the device loop over the lines before that
  line only: no later line is processed, and what earlier lines wrote stays.
\<close>

theorem C10_bad_device_line_aborts:
  assumes "splitlines out = pre @ bad # post"
    and "\<exists>h \<in> set pre. contains ''Device'' h"
    and "\<not> contains ''Device'' bad"
    and "length (py_split bad) \<ge> 4"
    and "fl (py_split bad ! 1) = None \<or> fl (py_split bad ! 2) = None \<or> fl (py_split bad ! 3) = None"
  shows "collect_iostat_metrics fl k z (Inr out) r =
           (False, registry_of (and_then (cpu_loop fl z (pre @ bad # post) r)
                                  (device_loop fl k False pre)))"
proof -
  have "py_split bad \<noteq> []" using assms(4) by auto
  then have ne: "strip bad \<noteq> []" by (rule py_split_strip)
  have raise: "device_line fl k bad r' = Inl (ValueError, r')" for r'
    using assms(4,5) by (rule device_line_raises)
  have stop: "device_loop fl k True (bad # post) = (\<lambda>r'. Inl (ValueError, r'))"
    using assms(3) ne by (intro ext) (simp add: raise)
  have dev: "device_loop fl k False (pre @ bad # post) r1 =
      and_then (device_loop fl k False pre r1) (\<lambda>r'. Inl (ValueError, r'))" for r1
    using assms(2) by (simp add: device_loop_append stop)
  show ?thesis
  proof (cases "cpu_loop fl z (pre @ bad # post) r")
    case (Inl a)
    then show ?thesis
      using assms(1) by (cases a) (simp add: collect_iostat_metrics_def iostat_body_lines)
  next
    case (Inr r1)
    show ?thesis
    proof (cases "device_loop fl k False pre r1")
      case (Inl a)
      then show ?thesis
        using assms(1) Inr dev [of r1]
        by (cases a) (simp add: collect_iostat_metrics_def iostat_body_lines)
    next
      case inner: (Inr r2)
      then show ?thesis
        using assms(1) Inr dev [of r1]
        by (simp add: collect_iostat_metrics_def iostat_body_lines)
    qed
  qed
qed


lemma plain_floats:
  "float_plain ''5.0'' = Some 5" "float_plain ''100.0'' = Some 100"
  "float_plain ''200.0'' = Some 200" "float_plain ''1,0'' = None"
  "float_plain ''tps'' = None"
  by (simp_all add: float_plain_def unsigned_plain_def strip_def isspace_def isdigit_def
      digits_val_def)

lemma sda_fields:
  "py_split ''sda 5.0 100.0 200.0'' = [''sda'', ''5.0'', ''100.0'', ''200.0'']"
  "py_split ''sdb 1,0 2,0 3,0'' = [''sdb'', ''1,0'', ''2,0'', ''3,0'']"
  "py_split ''Device tps'' = [''Device'', ''tps'']"
  "py_split ''1 2 3 4 5'' = [''1'', ''2'', ''3'', ''4'', ''5'']"
  "py_split ''sda 5.0 100.0'' = [''sda'', ''5.0'', ''100.0'']"
  by code_simp+

lemma sda_strips:
  "strip ''sda 5.0 100.0 200.0'' \<noteq> []" "strip ''sdb 1,0 2,0 3,0'' \<noteq> []"
  "strip ''1 2 3 4 5'' \<noteq> []" "strip ''%user'' \<noteq> []"
  by code_simp+





lemma abort_lines:
  "splitlines ''Device tps\<newline>sda 5.0 100.0 200.0\<newline>sdb 1,0 2,0 3,0\<newline>sdc 7.0 8.0 9.0'' =
     [''Device tps'', ''sda 5.0 100.0 200.0''] @ ''sdb 1,0 2,0 3,0'' # [''sdc 7.0 8.0 9.0'']"
  by code_simp

theorem C10_bad_device_line_witness:
  "splitlines ''Device tps\<newline>sda 5.0 100.0 200.0\<newline>sdb 1,0 2,0 3,0\<newline>sdc 7.0 8.0 9.0'' =
     [''Device tps'', ''sda 5.0 100.0 200.0'', ''sdb 1,0 2,0 3,0'', ''sdc 7.0 8.0 9.0''] \<and>
   contains ''Device'' ''Device tps'' \<and> \<not> contains ''Device'' ''sdb 1,0 2,0 3,0'' \<and>
   py_split ''sdb 1,0 2,0 3,0'' = [''sdb'', ''1,0'', ''2,0'', ''3,0''] \<and>
   float_plain ''1,0'' = None \<and>
   fst (collect_iostat_metrics float_plain times_1024 0
     (Inr ''Device tps\<newline>sda 5.0 100.0 200.0\<newline>sdb 1,0 2,0 3,0\<newline>sdc 7.0 8.0 9.0'')
     empty_registry) = False \<and>
   device_sample (snd (collect_iostat_metrics float_plain times_1024 0
     (Inr ''Device tps\<newline>sda 5.0 100.0 200.0\<newline>sdb 1,0 2,0 3,0\<newline>sdc 7.0 8.0 9.0'')
     empty_registry)) ''sda'' = (Some 5, Some 100, Some 200, Some 102400, Some 204800) \<and>
   device_sample (snd (collect_iostat_metrics float_plain times_1024 0
     (Inr ''Device tps\<newline>sda 5.0 100.0 200.0\<newline>sdb 1,0 2,0 3,0\<newline>sdc 7.0 8.0 9.0'')
     empty_registry)) ''sdc'' = (None, None, None, None, None)"
proof -
  have hdr: "\<exists>h \<in> set [''Device tps'', ''sda 5.0 100.0 200.0'']. contains ''Device'' h" by simp
  have nohdr: "\<not> contains ''Device'' ''sdb 1,0 2,0 3,0''" by simp
  have len: "length (py_split ''sdb 1,0 2,0 3,0'') \<ge> 4" by (simp add: sda_fields)
  have bad: "float_plain (py_split ''sdb 1,0 2,0 3,0'' ! 1) = None \<or>
      float_plain (py_split ''sdb 1,0 2,0 3,0'' ! 2) = None \<or>
      float_plain (py_split ''sdb 1,0 2,0 3,0'' ! 3) = None"
    by (simp add: sda_fields plain_floats)
  have before: "and_then (cpu_loop float_plain 0
        ([''Device tps'', ''sda 5.0 100.0 200.0''] @ ''sdb 1,0 2,0 3,0'' # [''sdc 7.0 8.0 9.0''])
        empty_registry)
      (device_loop float_plain times_1024 False [''Device tps'', ''sda 5.0 100.0 200.0'']) =
      Inr (empty_registry\<lparr>io_tps := [''sda'' \<mapsto> 5], io_read_rate := [''sda'' \<mapsto> 100],
             io_write_rate := [''sda'' \<mapsto> 200], io_read_bytes := [''sda'' \<mapsto> 102400],
             io_write_bytes := [''sda'' \<mapsto> 204800]\<rparr>)"
    by (simp add: sda_strips device_line_def Let_def sda_fields plain_floats times_1024_def
        empty_registry_def)
  have res: "collect_iostat_metrics float_plain times_1024 0
      (Inr ''Device tps\<newline>sda 5.0 100.0 200.0\<newline>sdb 1,0 2,0 3,0\<newline>sdc 7.0 8.0 9.0'')
      empty_registry =
      (False, empty_registry\<lparr>io_tps := [''sda'' \<mapsto> 5], io_read_rate := [''sda'' \<mapsto> 100],
             io_write_rate := [''sda'' \<mapsto> 200], io_read_bytes := [''sda'' \<mapsto> 102400],
             io_write_bytes := [''sda'' \<mapsto> 204800]\<rparr>)"
    using C10_bad_device_line_aborts [OF abort_lines hdr nohdr len bad,
        where k = times_1024 and z = 0 and r = empty_registry]
    by (simp only: before registry_of.simps)
  show ?thesis
    using abort_lines
    by (simp add: res sda_fields plain_floats device_sample_def)
qed

text \<open>
  The claim as stated does not exclude a line that contains \<open>Device\<close> itself. Below,
  the header is printed twice: the second header has four fields, its field 2 is not a
  number, and the cycle returns \<open>True\<close>.
\<close>

lemma header_fields:
  "py_split ''Device tps kB_read/s kB_wrtn/s'' = [''Device'', ''tps'', ''kB_read/s'', ''kB_wrtn/s'']"
  by code_simp

lemma two_device_headers_lines:
  "splitlines ''Device tps kB_read/s kB_wrtn/s\<newline>Device tps kB_read/s kB_wrtn/s'' =
     [''Device tps kB_read/s kB_wrtn/s'', ''Device tps kB_read/s kB_wrtn/s'']"
  by code_simp

theorem C10_repeated_header_counterexample:
  "splitlines ''Device tps kB_read/s kB_wrtn/s\<newline>Device tps kB_read/s kB_wrtn/s'' =
     [''Device tps kB_read/s kB_wrtn/s'', ''Device tps kB_read/s kB_wrtn/s''] \<and>
   contains ''Device'' ''Device tps kB_read/s kB_wrtn/s'' \<and>
   py_split ''Device tps kB_read/s kB_wrtn/s'' = [''Device'', ''tps'', ''kB_read/s'', ''kB_wrtn/s''] \<and>
   float_plain ''tps'' = None \<and>
   collect_iostat_metrics float_plain times_1024 0
     (Inr ''Device tps kB_read/s kB_wrtn/s\<newline>Device tps kB_read/s kB_wrtn/s'') empty_registry =
     (True, empty_registry)"
proof -
  have "iostat_body float_plain times_1024 0
      ''Device tps kB_read/s kB_wrtn/s\<newline>Device tps kB_read/s kB_wrtn/s'' empty_registry =
      Inr empty_registry"
    by (simp add: iostat_body_lines two_device_headers_lines)
  then show ?thesis
    by (simp add: collect_iostat_metrics_def two_device_headers_lines header_fields plain_floats)
qed




end
